theory Spec2Isabelle
  imports Main "HOL-Library.Word"
begin

section \<open>Errors and outcomes\<close>

text \<open>
  The gRPC status codes the manager uses (\<open>codes.NotFound\<close>, \<open>codes.InvalidArgument\<close>,
  \<open>codes.Unknown\<close>).
\<close>

datatype code = NotFound | InvalidArgument | Unknown

text \<open>
  Modelled from the spec: \<open>util.NewUserError\<close> and \<open>UserError.GRPCError\<close> live in
  package \<open>util\<close>, which is not among the sources. The spec's taxonomy says a user error
  carries one of the kinds above and a message, and that it is this kind that reaches
  the caller. A Go \<open>error\<close> value is such a user error or, for every other error a
  collaborator can return, a \<open>RawError\<close>.
\<close>

datatype error = UserError code string | RawError string

definition NewUserError :: "code \<Rightarrow> string \<Rightarrow> error" where
  "NewUserError c msg = UserError c msg"

text \<open>
  What a handler of the gRPC server can end with besides a reply: a gRPC status
  (\<open>userError.GRPCError()\<close>), the error of a failed \<open>stream.Send\<close>, or a run-time panic
  (nil dereference, slice bounds out of range).
\<close>

datatype fault = GRPCError code string | SendError string | Panic

text \<open>\<open>errors.As(err, &userError)\<close>: the user error inside \<open>err\<close>, when there is one.\<close>

fun errors_As :: "error option \<Rightarrow> (code \<times> string) option" where
  "errors_As None = None"
| "errors_As (Some (UserError c msg)) = Some (c, msg)"
| "errors_As (Some (RawError msg)) = None"

section \<open>Data model\<close>

text \<open>
  Modelled from the spec: the type declarations of packages \<open>model\<close> and \<open>api\<close> are not
  among the sources. The records below hold the fields that the handlers and the manager
  read and write, typed as section 3 of the spec and their uses in the sources say (a
  pointer that may be nil is an \<open>option\<close>).
\<close>

type_synonym int32 = "32 word"

text \<open>
  A \<open>time.Time\<close>: an instant, counted from the zero time, and the offset from UTC of the
  location it is shown in. \<open>IsZero()\<close> asks for the zero instant, whatever the location;
  \<open>UTC()\<close> keeps the instant and sets the location to UTC.
\<close>

record time =
  t_instant :: nat
  t_offset :: int

definition zero_time :: time where
  "zero_time = \<lparr>t_instant = 0, t_offset = 0\<rparr>"

definition IsZero :: "time \<Rightarrow> bool" where
  "IsZero t = (t_instant t = 0)"

definition UTC :: "time \<Rightarrow> time" where
  "UTC t = t\<lparr>t_offset := 0\<rparr>"

record model_WorkflowTemplate =
  wt_UID :: string
  wt_CreatedAt :: time
  wt_Name :: string
  wt_Version :: int32
  wt_Manifest :: string
  wt_IsLatest :: bool
  wt_IsArchived :: bool

record model_Parameter =
  p_Name :: string
  p_Value :: "string option"

record model_Workflow =
  wf_CreatedAt :: time
  wf_FinishedAt :: time
  wf_UID :: string
  wf_Name :: string
  wf_Phase :: string
  wf_Manifest :: string
  wf_Status :: string
  wf_Parameters :: "model_Parameter list"
  wf_WorkflowTemplate :: "model_WorkflowTemplate option"

text \<open>\<open>&model.Workflow{}\<close>: every field at its zero value.\<close>

definition zero_Workflow :: model_Workflow where
  "zero_Workflow = \<lparr>wf_CreatedAt = zero_time, wf_FinishedAt = zero_time, wf_UID = [], wf_Name = [],
     wf_Phase = [], wf_Manifest = [], wf_Status = [], wf_Parameters = [],
     wf_WorkflowTemplate = None\<rparr>"

record api_WorkflowTemplate =
  awt_Uid :: string
  awt_CreatedAt :: string
  awt_Name :: string
  awt_Version :: int32
  awt_Manifest :: string
  awt_IsLatest :: bool
  awt_IsArchived :: bool

record api_Workflow =
  aw_CreatedAt :: string
  aw_Name :: string
  aw_Uid :: string
  aw_Phase :: string
  aw_StartedAt :: string
  aw_FinishedAt :: string
  aw_Manifest :: string
  aw_Parameters :: "(string \<times> string) list"
  aw_WorkflowTemplate :: "api_WorkflowTemplate option"

section \<open>The gRPC server: projections\<close>

text \<open>
  \<open>apiWorkflow\<close> of \<open>workflow_server.go\<close>, on a non-nil workflow. The rendering
  \<open>Format(time.RFC3339)\<close> of a time, in the location the time carries, is the parameter
  \<open>fmt\<close>; the workflow's times are rendered as they are, the template's \<open>CreatedAt\<close>
  after \<open>UTC()\<close>. As in the source,
  \<open>StartedAt\<close> is rendered from \<open>CreatedAt\<close>, and the parameters are left at their
  zero value.
\<close>

definition apiWorkflow :: "(time \<Rightarrow> string) \<Rightarrow> model_Workflow \<Rightarrow> api_Workflow" where
  "apiWorkflow fmt w =
     \<lparr>aw_CreatedAt = fmt (wf_CreatedAt w),
      aw_Name = wf_Name w,
      aw_Uid = wf_UID w,
      aw_Phase = wf_Phase w,
      aw_StartedAt = fmt (wf_CreatedAt w),
      aw_FinishedAt = fmt (wf_FinishedAt w),
      aw_Manifest = wf_Manifest w,
      aw_Parameters = [],
      aw_WorkflowTemplate =
        (case wf_WorkflowTemplate w of
           None \<Rightarrow> None
         | Some t \<Rightarrow> Some
             \<lparr>awt_Uid = wt_UID t,
              awt_CreatedAt = fmt (UTC (wt_CreatedAt t)),
              awt_Name = wt_Name t,
              awt_Version = wt_Version t,
              awt_Manifest = wt_Manifest t,
              awt_IsLatest = wt_IsLatest t,
              awt_IsArchived = wt_IsArchived t\<rparr>)\<rparr>"

text \<open>
  \<open>apiWorkflow\<close> on a pointer: it reads \<open>wf.CreatedAt\<close> first, so a nil pointer panics.
\<close>

definition apiWorkflow_ptr :: "(time \<Rightarrow> string) \<Rightarrow> model_Workflow option \<Rightarrow> fault + api_Workflow" where
  "apiWorkflow_ptr fmt p = (case p of None \<Rightarrow> Inl Panic | Some w \<Rightarrow> Inr (apiWorkflow fmt w))"

section \<open>The gRPC server: pagination in \<open>ListWorkflows\<close>\<close>

text \<open>
  \<open>math.Ceil(float64(a) / float64(b))\<close> for a length \<open>a\<close> and a positive \<open>int32\<close> \<open>b\<close>.
  Both operands are below \<open>2^53\<close>, so the conversions are exact, and the rounded
  quotient of two such integers is an integer only when the exact quotient is one: the
  result is the integer ceiling.
\<close>

definition math_Ceil_div :: "int \<Rightarrow> int \<Rightarrow> int" where
  "math_Ceil_div a b = - ((- a) div b)"

text \<open>
  The slice expression \<open>xs[lo:hi]\<close>, which panics unless \<open>0 \<le> lo \<le> hi \<le> cap(xs)\<close>.
  The bound used here is the length: \<open>ListWorkflows\<close> never asks for an upper index
  above it (lemma \<open>page_bounds_end_below_len\<close>).
\<close>

definition slice :: "'a list \<Rightarrow> int \<Rightarrow> int \<Rightarrow> 'a list option" where
  "slice xs lo hi =
     (if 0 \<le> lo \<and> lo \<le> hi \<and> hi \<le> int (length xs)
      then Some (take (nat (hi - lo)) (drop (nat lo) xs))
      else None)"

record ListWorkflowsResponse =
  lr_Count :: int32
  lr_Workflows :: "api_Workflow list"
  lr_Page :: int32
  lr_Pages :: int32
  lr_TotalCount :: int32

text \<open>
  The slice bounds \<open>(start, end)\<close> and the page count that \<open>ListWorkflows\<close> computes for
  a list of length \<open>n\<close>, in \<open>int32\<close> arithmetic (\<open>+\<close>, \<open>-\<close>, \<open>*\<close> wrap, comparisons are
  signed). The result is \<open>(page, pages, start, end)\<close>.
\<close>

definition page_bounds :: "nat \<Rightarrow> int32 \<Rightarrow> int32 \<Rightarrow> int32 \<times> int32 \<times> int32 \<times> int32" where
  "page_bounds n reqPage reqPageSize =
     (let pageSize = (if sint reqPageSize \<le> 0 then 15 else reqPageSize);
          page0 = (if sint reqPage \<le> 0 then 1 else reqPage);
          len32 = (word_of_int (int n) :: int32);
          pages = (word_of_int (math_Ceil_div (int n) (sint pageSize)) :: int32);
          page = (if sint page0 > sint pages then pages else page0);
          start = (page - 1) * pageSize;
          end0 = start + pageSize;
          end1 = (if sint end0 \<ge> sint len32 then len32 - 1 else end0)
      in (page, pages, start, end1))"

text \<open>
  \<open>WorkflowServer.ListWorkflows\<close>. The first argument pair is what
  \<open>resourceManager.ListWorkflows\<close> returned (the list and the error); \<open>reqPage\<close> and
  \<open>reqPageSize\<close> are the request's fields.
\<close>

definition ListWorkflows ::
  "(time \<Rightarrow> string) \<Rightarrow> model_Workflow list \<times> error option \<Rightarrow> int32 \<Rightarrow> int32
     \<Rightarrow> fault + ListWorkflowsResponse" where
  "ListWorkflows fmt rm reqPage reqPageSize =
     (case rm of (workflows, err) \<Rightarrow>
        (case errors_As err of
           Some (c, msg) \<Rightarrow> Inl (GRPCError c msg)
         | None \<Rightarrow>
             (let apiWorkflows = map (apiWorkflow fmt) workflows in
              case page_bounds (length apiWorkflows) reqPage reqPageSize of
                (page, pages, start, end1) \<Rightarrow>
                  (case slice apiWorkflows (sint start) (sint end1) of
                     None \<Rightarrow> Inl Panic
                   | Some ws \<Rightarrow> Inr
                       \<lparr>lr_Count = end1 - start,
                        lr_Workflows = ws,
                        lr_Page = page,
                        lr_Pages = pages,
                        lr_TotalCount = word_of_int (int (length apiWorkflows))\<rparr>))))"

section \<open>Library functions: \<open>strconv.ParseInt\<close> and \<open>fmt.Sprint\<close>\<close>

text \<open>
  The Go standard library is not part of the repository; the two functions the manager
  calls are written after the library's source, specialised to the arguments the
  manager passes (base \<open>10\<close>, bit size \<open>32\<close>; an \<open>int32\<close> operand).
\<close>

datatype NumError = ErrSyntax | ErrRange

definition is_digit :: "char \<Rightarrow> bool" where
  "is_digit c = (48 \<le> (of_char c :: nat) \<and> (of_char c :: nat) \<le> 57)"

definition digit_val :: "char \<Rightarrow> nat" where
  "digit_val c = of_char c - 48"

definition maxUint64 :: nat where
  "maxUint64 = 2 ^ 64 - 1"

text \<open>
  The digit loop of \<open>strconv.ParseUint\<close> in base \<open>10\<close>, on \<open>uint64\<close> with the wrap-around
  written out. In base \<open>10\<close> every byte that is not a decimal digit (a letter, an
  underscore, a sign) is a syntax error.
\<close>

fun ParseUint_loop :: "nat \<Rightarrow> nat \<Rightarrow> string \<Rightarrow> nat \<times> NumError option" where
  "ParseUint_loop maxVal n [] = (n, None)"
| "ParseUint_loop maxVal n (c # cs) =
     (if \<not> is_digit c then (0, Some ErrSyntax)
      else if n \<ge> maxUint64 div 10 + 1 then (maxVal, Some ErrRange)
      else
        (let n10 = (n * 10) mod 2 ^ 64;
             n1 = (n10 + digit_val c) mod 2 ^ 64
         in if n1 < n10 \<or> n1 > maxVal then (maxVal, Some ErrRange)
            else ParseUint_loop maxVal n1 cs))"

text \<open>\<open>strconv.ParseUint(s, 10, 32)\<close>.\<close>

definition ParseUint :: "string \<Rightarrow> nat \<times> NumError option" where
  "ParseUint s = (if s = [] then (0, Some ErrSyntax) else ParseUint_loop (2 ^ 32 - 1) 0 s)"

text \<open>\<open>strconv.ParseInt(s, 10, 32)\<close>: the \<open>int64\<close> result and the error.\<close>

definition ParseInt :: "string \<Rightarrow> int \<times> NumError option" where
  "ParseInt s =
     (if s = [] then (0, Some ErrSyntax)
      else
        (let neg = (hd s = CHR ''-'');
             s1 = (if hd s = CHR ''+'' then tl s else if hd s = CHR ''-'' then tl s else s)
         in case ParseUint s1 of (un, err) \<Rightarrow>
              if err \<noteq> None \<and> err \<noteq> Some ErrRange then (0, err)
              else
                (let cutoff = (2 ^ 31 :: nat)
                 in if \<not> neg \<and> un \<ge> cutoff then (int cutoff - 1, Some ErrRange)
                    else if neg \<and> un > cutoff then (- int cutoff, Some ErrRange)
                    else (if neg then - int un else int un, None))))"

text \<open>
  The decimal digits of a natural number, most significant first, each taken from the
  library's digit table.
\<close>

definition digits :: string where
  "digits = ''0123456789''"

fun decimal :: "nat \<Rightarrow> string" where
  "decimal n = (if n < 10 then [digits ! n] else decimal (n div 10) @ [digits ! (n mod 10)])"

declare decimal.simps [simp del]

text \<open>\<open>fmt.Sprint\<close> of an \<open>int32\<close>: its decimal text, with a minus sign when negative.\<close>

definition fmt_Sprint :: "int32 \<Rightarrow> string" where
  "fmt_Sprint v = (if sint v < 0 then CHR ''-'' # decimal (nat (- sint v)) else decimal (nat (sint v)))"

text \<open>
  The spec's words for the version label, "parseable as a base-10 32-bit integer",
  written out on their own for comparison with \<open>ParseInt\<close>: an optional sign, then
  at least one decimal digit and nothing else, with a value in the range of \<open>int32\<close>.
\<close>

definition decimal_value :: "string \<Rightarrow> nat" where
  "decimal_value cs = foldl (\<lambda>a c. 10 * a + digit_val c) 0 cs"

definition base10_int32 :: "string \<Rightarrow> bool" where
  "base10_int32 s =
     (case s of
        [] \<Rightarrow> False
      | c # cs \<Rightarrow>
          if c = CHR ''-'' then cs \<noteq> [] \<and> list_all is_digit cs \<and> decimal_value cs \<le> 2 ^ 31
          else if c = CHR ''+'' then cs \<noteq> [] \<and> list_all is_digit cs \<and> decimal_value cs < 2 ^ 31
          else list_all is_digit s \<and> decimal_value s < 2 ^ 31)"

section \<open>The orchestration client's objects\<close>

text \<open>
  Modelled from the spec: package \<open>kube\<close> is not among the sources. Of a \<open>kube.Workflow\<close>
  the manager reads the name, the uid, the labels and the status, and of the status only
  \<open>FinishedAt\<close>; the rest of the status is the opaque \<open>st_Body\<close>.
\<close>

record kube_Status =
  st_FinishedAt :: time
  st_Body :: string

record kube_Workflow =
  kw_Name :: string
  kw_UID :: string
  kw_Labels :: "string \<rightharpoonup> string"
  kw_Status :: kube_Status

record kube_WorkflowOptions =
  o_Parameters :: "(string \<times> string option) list"
  o_Labels :: "(string \<rightharpoonup> string) option"

text \<open>A Go function that either returns its results or panics.\<close>

datatype 'a outcome = Returns 'a | Panics

text \<open>
  The resource manager with its collaborators as functions: the orchestration client,
  the template store, \<open>json.Marshal\<close> on a status (whose type is not among the
  sources), and the label prefix read from the environment at start-up. A collaborator
  returns a Go pair of a result and an error.
\<close>

record ResourceManager =
  labelKeyPrefix :: string
  kubeClient_CreateWorkflow ::
    "string \<Rightarrow> string \<Rightarrow> kube_WorkflowOptions \<Rightarrow> kube_Workflow list \<times> error option"
  kubeClient_GetWorkflow :: "string \<Rightarrow> string \<Rightarrow> kube_Workflow option \<times> error option"
  kubeClient_WatchWorkflow :: "string \<Rightarrow> string \<Rightarrow> error option"
  workflowRepository_GetWorkflowTemplate ::
    "string \<Rightarrow> string \<Rightarrow> int32 \<Rightarrow> model_WorkflowTemplate option \<times> error option"
  json_Marshal :: "kube_Status \<Rightarrow> string \<times> error option"

section \<open>Identity correlation labels\<close>

definition workflowTemplateUIDLabelKey :: "string \<Rightarrow> string" where
  "workflowTemplateUIDLabelKey prefix = prefix @ ''workflow-template-uid''"

definition workflowTemplateVersionLabelKey :: "string \<Rightarrow> string" where
  "workflowTemplateVersionLabelKey prefix = prefix @ ''workflow-template-version''"

text \<open>Reading a Go map: an absent key gives the empty string.\<close>

definition map_index :: "(string \<rightharpoonup> string) \<Rightarrow> string \<Rightarrow> string" where
  "map_index m k = (case m k of None \<Rightarrow> [] | Some v \<Rightarrow> v)"

text \<open>
  Lines 39 and 40 of \<open>CreateWorkflow\<close>: the two assignments into the label map.
\<close>

definition stamp :: "string \<Rightarrow> (string \<rightharpoonup> string) \<Rightarrow> string \<Rightarrow> int32 \<Rightarrow> (string \<rightharpoonup> string)" where
  "stamp prefix labels uid version =
     (labels(workflowTemplateUIDLabelKey prefix \<mapsto> uid))
       (workflowTemplateVersionLabelKey prefix \<mapsto> fmt_Sprint version)"

text \<open>
  Lines 61 to 69 of \<open>GetWorkflow\<close>: the uid label as it is, the version label through
  \<open>strconv.ParseInt\<close> and the conversion \<open>int32(version)\<close>.
\<close>

definition resolve :: "string \<Rightarrow> (string \<rightharpoonup> string) \<Rightarrow> error + string \<times> int32" where
  "resolve prefix labels =
     (let uid = map_index labels (workflowTemplateUIDLabelKey prefix)
      in case ParseInt (map_index labels (workflowTemplateVersionLabelKey prefix)) of
           (version, err) \<Rightarrow>
             if err \<noteq> None then Inl (NewUserError InvalidArgument ''Invalid version number.'')
             else Inr (uid, word_of_int version))"

section \<open>The resource manager\<close>

text \<open>\<open>ResourceManager.GetWorkflowTemplate\<close>.\<close>

definition GetWorkflowTemplate ::
  "ResourceManager \<Rightarrow> string \<Rightarrow> string \<Rightarrow> int32 \<Rightarrow> model_WorkflowTemplate option \<times> error option" where
  "GetWorkflowTemplate r namespace uid version =
     (case workflowRepository_GetWorkflowTemplate r namespace uid version of
        (workflowTemplate, err) \<Rightarrow>
          if err \<noteq> None then (None, Some (NewUserError Unknown ''Unknown error.''))
          else if workflowTemplate = None
            then (None, Some (NewUserError NotFound ''Workflow template not found.''))
          else (workflowTemplate, err))"

text \<open>
  \<open>ResourceManager.CreateWorkflow\<close>. Reading \<open>workflow.WorkflowTemplate.UID\<close> panics on a
  nil template reference, and \<open>createdWorkflows[0]\<close> panics on an empty list. The
  manifest bytes handed to the client are those of the resolved template; the manifest
  is cleared in the value returned.
\<close>

definition CreateWorkflow ::
  "ResourceManager \<Rightarrow> string \<Rightarrow> model_Workflow \<Rightarrow> (model_Workflow option \<times> error option) outcome" where
  "CreateWorkflow r namespace workflow =
     (case wf_WorkflowTemplate workflow of
        None \<Rightarrow> Panics
      | Some ref \<Rightarrow>
          (case GetWorkflowTemplate r namespace (wt_UID ref) (wt_Version ref) of
             (_, Some err) \<Rightarrow> Returns (None, Some err)
           | (None, None) \<Rightarrow> Panics
           | (Some workflowTemplate, None) \<Rightarrow>
               (let opts = \<lparr>o_Parameters = map (\<lambda>param. (p_Name param, p_Value param)) (wf_Parameters workflow),
                            o_Labels = Some (stamp (labelKeyPrefix r) Map.empty
                                               (wt_UID workflowTemplate) (wt_Version workflowTemplate))\<rparr>
                in case kubeClient_CreateWorkflow r namespace (wt_Manifest workflowTemplate) opts of
                     (_, Some err) \<Rightarrow> Returns (None, Some err)
                   | ([], None) \<Rightarrow> Panics
                   | (created # _, None) \<Rightarrow>
                       Returns
                         (Some (workflow
                            \<lparr>wf_Name := kw_Name created,
                             wf_UID := kw_UID created,
                             wf_WorkflowTemplate := Some (workflowTemplate\<lparr>wt_Manifest := []\<rparr>)\<rparr>),
                          None))))"

text \<open>
  \<open>ResourceManager.GetWorkflow\<close>. Every failure of the client's call is reported as
  \<open>NotFound\<close>; a nil object with a nil error would be dereferenced. The error of
  \<open>GetWorkflowTemplate\<close> is returned as it is (the bare \<open>return\<close> of the source, with
  the result still nil).
\<close>

definition GetWorkflow ::
  "ResourceManager \<Rightarrow> string \<Rightarrow> string \<Rightarrow> (model_Workflow option \<times> error option) outcome" where
  "GetWorkflow r namespace name =
     (case kubeClient_GetWorkflow r namespace name of
        (_, Some err) \<Rightarrow> Returns (None, Some (NewUserError NotFound ''Workflow not found.''))
      | (None, None) \<Rightarrow> Panics
      | (Some w, None) \<Rightarrow>
          (case resolve (labelKeyPrefix r) (kw_Labels w) of
             Inl e \<Rightarrow> Returns (None, Some e)
           | Inr (uid, version) \<Rightarrow>
               (case GetWorkflowTemplate r namespace uid version of
                  (_, Some err) \<Rightarrow> Returns (None, Some err)
                | (workflowTemplate, None) \<Rightarrow>
                    (case json_Marshal r (kw_Status w) of
                       (_, Some err) \<Rightarrow>
                         Returns (None, Some (NewUserError InvalidArgument ''Invalid status.''))
                     | (status, None) \<Rightarrow>
                         Returns
                           (Some (zero_Workflow
                              \<lparr>wf_UID := kw_UID w,
                               wf_Name := kw_Name w,
                               wf_Status := status,
                               wf_WorkflowTemplate := workflowTemplate\<rparr>),
                            None)))))"

section \<open>The stream bridge of \<open>ResourceManager.WatchWorkflow\<close>\<close>

text \<open>
  One turn of the \<open>select\<close> of the goroutine: an event of the watch subscription, whose
  object is a workflow or not (the type assertion \<open>next.Object.(*kube.Workflow)\<close> then
  leaves nil), or a tick of the one-second ticker.
\<close>

datatype select_case = Event "kube_Workflow option" | Tick

text \<open>
  Where the goroutine stands: in its \<open>select\<close>, in the send of a snapshot on the
  channel (line 119; the channel is unbuffered, so the goroutine stays there until the
  snapshot is received), past the loop (the channel is closed and the watcher stopped),
  or dead of a nil dereference.
\<close>

datatype bridge_state = Streaming | Sending model_Workflow | Closed | Crashed

text \<open>The struct literal of lines 119 to 124.\<close>

definition snapshot_of :: "model_Workflow \<Rightarrow> kube_Workflow \<Rightarrow> string \<Rightarrow> model_Workflow" where
  "snapshot_of f k status =
     zero_Workflow
       \<lparr>wf_UID := kw_UID k,
        wf_Name := kw_Name k,
        wf_Status := status,
        wf_WorkflowTemplate := wf_WorkflowTemplate f\<rparr>"

text \<open>
  What one turn of the loop comes to before its send: nothing (the loop waits again),
  a nil dereference, or a snapshot to push.
\<close>

datatype offer = Continue | Dies | Offers model_Workflow

text \<open>
  Lines 106 to 124 of the goroutine, for one turn of its \<open>select\<close>: the object held
  after the turn, and what the turn comes to. \<open>fetched\<close> is the result of the initial
  \<open>GetWorkflow\<close> and \<open>workflow\<close> the object held before the turn.
\<close>

definition bridge_select ::
  "(kube_Status \<Rightarrow> string \<times> error option) \<Rightarrow> model_Workflow option \<Rightarrow> kube_Workflow option
     \<Rightarrow> select_case \<Rightarrow> kube_Workflow option \<times> offer" where
  "bridge_select marshal fetched workflow c =
     (let workflow = (case c of Event obj \<Rightarrow> obj | Tick \<Rightarrow> workflow)
      in case workflow of
           None \<Rightarrow> (workflow, Continue)
         | Some k \<Rightarrow>
             (case marshal (kw_Status k) of
                (_, Some err) \<Rightarrow> (workflow, Continue)
              | (status, None) \<Rightarrow>
                  (case fetched of
                     None \<Rightarrow> (workflow, Dies)
                   | Some f \<Rightarrow> (workflow, Offers (snapshot_of f k status)))))"

text \<open>Line 126, after the send: whether the object held has a finishing time.\<close>

definition finished :: "kube_Workflow option \<Rightarrow> bool" where
  "finished workflow =
     (case workflow of None \<Rightarrow> False | Some k \<Rightarrow> \<not> IsZero (st_FinishedAt (kw_Status k)))"

text \<open>
  The loop of the goroutine (lines 105 to 129), over the sequence of turns its \<open>select\<close>
  takes, against a consumer that receives \<open>receives\<close> snapshots from the channel and
  then no more. The result is the snapshots pushed on the channel, in order, and the
  state reached: a push that is not received leaves the goroutine in its send.
\<close>

fun bridge_loop ::
  "(kube_Status \<Rightarrow> string \<times> error option) \<Rightarrow> model_Workflow option \<Rightarrow> kube_Workflow option
     \<Rightarrow> nat \<Rightarrow> select_case list \<Rightarrow> model_Workflow list \<times> bridge_state" where
  "bridge_loop marshal fetched workflow receives [] = ([], Streaming)"
| "bridge_loop marshal fetched workflow receives (c # cs) =
     (case bridge_select marshal fetched workflow c of
        (workflow, Continue) \<Rightarrow> bridge_loop marshal fetched workflow receives cs
      | (workflow, Dies) \<Rightarrow> ([], Crashed)
      | (workflow, Offers snapshot) \<Rightarrow>
          (case receives of
             0 \<Rightarrow> ([], Sending snapshot)
           | Suc m \<Rightarrow>
               if finished workflow then ([snapshot], Closed)
               else (case bridge_loop marshal fetched workflow m cs of
                       (pushed, state) \<Rightarrow> (snapshot # pushed, state))))"

text \<open>
  \<open>ResourceManager.WatchWorkflow\<close>. The channel returned is the function that gives,
  for the number of snapshots its consumer receives and the turns the goroutine takes,
  what is pushed on it and where the goroutine then stands.
\<close>

definition WatchWorkflow ::
  "ResourceManager \<Rightarrow> string \<Rightarrow> string
     \<Rightarrow> ((nat \<Rightarrow> select_case list \<Rightarrow> model_Workflow list \<times> bridge_state) option \<times> error option) outcome" where
  "WatchWorkflow r namespace name =
     (case GetWorkflow r namespace name of
        Panics \<Rightarrow> Panics
      | Returns (_, Some err) \<Rightarrow>
          Returns (None, Some (NewUserError NotFound ''Workflow template not found.''))
      | Returns (fetched, None) \<Rightarrow>
          (case kubeClient_WatchWorkflow r namespace name of
             Some err \<Rightarrow> Returns (None, Some (NewUserError Unknown ''Unknown error.''))
           | None \<Rightarrow> Returns (Some (bridge_loop (json_Marshal r) fetched None), None)))"

section \<open>The gRPC server: handlers\<close>

record api_CreateWorkflowRequest =
  cr_Namespace :: string
  cr_Workflow :: "api_Workflow option"

text \<open>
  \<open>WorkflowServer.CreateWorkflow\<close>. A nil \<open>req.Workflow\<close> or a nil template reference in
  it is dereferenced. An error of the manager is answered only when it is a user error;
  otherwise the handler goes on to \<open>apiWorkflow(wf)\<close>.
\<close>

definition WorkflowServer_CreateWorkflow ::
  "(time \<Rightarrow> string) \<Rightarrow> ResourceManager \<Rightarrow> api_CreateWorkflowRequest \<Rightarrow> fault + api_Workflow" where
  "WorkflowServer_CreateWorkflow fmt r req =
     (case cr_Workflow req of
        None \<Rightarrow> Inl Panic
      | Some reqw \<Rightarrow>
          (case aw_WorkflowTemplate reqw of
             None \<Rightarrow> Inl Panic
           | Some reqt \<Rightarrow>
               (let workflow = zero_Workflow
                      \<lparr>wf_Parameters := map (\<lambda>(n, v). \<lparr>p_Name = n, p_Value = Some v\<rparr>) (aw_Parameters reqw),
                       wf_WorkflowTemplate := Some
                         \<lparr>wt_UID = awt_Uid reqt, wt_CreatedAt = zero_time, wt_Name = [],
                          wt_Version = awt_Version reqt, wt_Manifest = [],
                          wt_IsLatest = False, wt_IsArchived = False\<rparr>\<rparr>
                in case CreateWorkflow r (cr_Namespace req) workflow of
                     Panics \<Rightarrow> Inl Panic
                   | Returns (w, err) \<Rightarrow>
                       (case errors_As err of
                          Some (c, msg) \<Rightarrow> Inl (GRPCError c msg)
                        | None \<Rightarrow> apiWorkflow_ptr fmt w))))"

text \<open>\<open>WorkflowServer.GetWorkflow\<close>.\<close>

definition WorkflowServer_GetWorkflow ::
  "(time \<Rightarrow> string) \<Rightarrow> ResourceManager \<Rightarrow> string \<Rightarrow> string \<Rightarrow> fault + api_Workflow" where
  "WorkflowServer_GetWorkflow fmt r namespace name =
     (case GetWorkflow r namespace name of
        Panics \<Rightarrow> Inl Panic
      | Returns (w, err) \<Rightarrow>
          (case errors_As err of
             Some (c, msg) \<Rightarrow> Inl (GRPCError c msg)
           | None \<Rightarrow> apiWorkflow_ptr fmt w))"

text \<open>
  One turn of the \<open>select\<close> of \<open>WorkflowServer.WatchWorkflow\<close>: a receive from the
  manager's channel (nil once the channel is closed) or a tick of the handler's own
  ticker.
\<close>

datatype stream_case = Recv "model_Workflow option" | StreamTick

text \<open>Where the handler stands: waiting in its \<open>select\<close>, or returned.\<close>

datatype handler_state = Selecting | ReturnedNil | ReturnedErr fault

text \<open>
  The loop of the handler (lines 103 to 115). Each turn comes with the result
  \<open>stream.Send\<close> gives if that turn calls it. The result is what was sent on the stream,
  in order, and the state reached.
\<close>

fun stream_loop ::
  "(time \<Rightarrow> string) \<Rightarrow> model_Workflow option \<Rightarrow> (stream_case \<times> string option) list
     \<Rightarrow> api_Workflow list \<times> handler_state" where
  "stream_loop fmt held [] = ([], Selecting)"
| "stream_loop fmt held ((c, send) # cs) =
     (let held = (case c of Recv v \<Rightarrow> v | StreamTick \<Rightarrow> held)
      in case held of
           None \<Rightarrow> ([], ReturnedNil)
         | Some w \<Rightarrow>
             (case send of
                Some e \<Rightarrow> ([], ReturnedErr (SendError e))
              | None \<Rightarrow>
                  (case stream_loop fmt held cs of
                     (sent, state) \<Rightarrow> (apiWorkflow fmt w # sent, state))))"

text \<open>
  \<open>WorkflowServer.WatchWorkflow\<close>, given what the manager's \<open>WatchWorkflow\<close> returned
  as error; the handler starts from \<open>wf := &model.Workflow{}\<close>.
\<close>

definition WorkflowServer_WatchWorkflow ::
  "(time \<Rightarrow> string) \<Rightarrow> error option \<Rightarrow> (stream_case \<times> string option) list
     \<Rightarrow> api_Workflow list \<times> handler_state" where
  "WorkflowServer_WatchWorkflow fmt err turns =
     (case errors_As err of
        Some (c, msg) \<Rightarrow> ([], ReturnedErr (GRPCError c msg))
      | None \<Rightarrow> stream_loop fmt (Some zero_Workflow) turns)"

section \<open>The bridge and the handler together\<close>

text \<open>
  The goroutine started by \<open>ResourceManager.WatchWorkflow\<close> and the loop of
  \<open>WorkflowServer.WatchWorkflow\<close> run side by side and meet on the unbuffered channel:
  a push of the bridge completes when, and only when, the handler's \<open>select\<close> takes
  the channel. An action is one turn of one of the two \<open>select\<close>s; a turn of the
  handler comes with the result \<open>stream.Send\<close> gives if that turn calls it.
\<close>

datatype branch = FromChannel | FromTicker

datatype action = Bridge select_case | Handler branch "string option"

record watch_state =
  b_workflow :: "kube_Workflow option"
  b_state :: bridge_state
  h_wf :: "model_Workflow option"
  h_state :: handler_state
  h_sent :: "api_Workflow list"

text \<open>Both loops at their start: the bridge holds nothing, the handler an empty workflow.\<close>

definition watch_initial :: watch_state where
  "watch_initial =
     \<lparr>b_workflow = None, b_state = Streaming, h_wf = Some zero_Workflow,
      h_state = Selecting, h_sent = []\<rparr>"

text \<open>One turn of the handler's loop, as \<open>stream_loop\<close> runs it.\<close>

definition handler_turn ::
  "(time \<Rightarrow> string) \<Rightarrow> stream_case \<Rightarrow> string option \<Rightarrow> watch_state \<Rightarrow> watch_state" where
  "handler_turn fmt c send s =
     (case stream_loop fmt (h_wf s) [(c, send)] of
        (sent, state) \<Rightarrow>
          s\<lparr>h_wf := (case c of Recv v \<Rightarrow> v | StreamTick \<Rightarrow> h_wf s),
            h_state := state,
            h_sent := h_sent s @ sent\<rparr>)"

text \<open>
  One action. A turn of the bridge's \<open>select\<close> can be taken only while the bridge is in
  its \<open>select\<close>, and one of the handler's only while the handler has not returned; the
  handler's \<open>select\<close> can take the channel only when the bridge is in a send (it receives
  the snapshot, and the bridge goes on to line 126) or has closed the channel (it
  receives nil). An action that cannot be taken leaves everything as it is.
\<close>

definition watch_step ::
  "(kube_Status \<Rightarrow> string \<times> error option) \<Rightarrow> model_Workflow option \<Rightarrow> (time \<Rightarrow> string)
     \<Rightarrow> watch_state \<Rightarrow> action \<Rightarrow> watch_state" where
  "watch_step marshal fetched fmt s a =
     (case a of
        Bridge c \<Rightarrow>
          (case b_state s of
             Streaming \<Rightarrow>
               (case bridge_select marshal fetched (b_workflow s) c of
                  (workflow, Continue) \<Rightarrow> s\<lparr>b_workflow := workflow\<rparr>
                | (workflow, Dies) \<Rightarrow> s\<lparr>b_workflow := workflow, b_state := Crashed\<rparr>
                | (workflow, Offers snapshot) \<Rightarrow>
                    s\<lparr>b_workflow := workflow, b_state := Sending snapshot\<rparr>)
           | _ \<Rightarrow> s)
      | Handler br send \<Rightarrow>
          (case h_state s of
             Selecting \<Rightarrow>
               (case br of
                  FromTicker \<Rightarrow> handler_turn fmt StreamTick send s
                | FromChannel \<Rightarrow>
                    (case b_state s of
                       Sending snapshot \<Rightarrow>
                         handler_turn fmt (Recv (Some snapshot)) send
                           (s\<lparr>b_state := (if finished (b_workflow s) then Closed else Streaming)\<rparr>)
                     | Closed \<Rightarrow> handler_turn fmt (Recv None) send s
                     | _ \<Rightarrow> s))
           | _ \<Rightarrow> s))"

text \<open>A run: the actions taken one after the other.\<close>

definition watch_run ::
  "(kube_Status \<Rightarrow> string \<times> error option) \<Rightarrow> model_Workflow option \<Rightarrow> (time \<Rightarrow> string)
     \<Rightarrow> watch_state \<Rightarrow> action list \<Rightarrow> watch_state" where
  "watch_run marshal fetched fmt s acts = foldl (watch_step marshal fetched fmt) s acts"

section \<open>Example collaborators\<close>

text \<open>
  A small world to run the manager in: one template \<open>tmpl-1\<close> at version \<open>3\<close> in the
  store, and one instance \<open>wf-1\<close> in the cluster whose version label is the text given
  (or absent) and whose status has the finishing instant given (\<open>0\<close>: not finished). The
  client's create call
  and watch call fail with the errors given, when there are any.
\<close>

definition example_template :: model_WorkflowTemplate where
  "example_template =
     \<lparr>wt_UID = ''tmpl-1'', wt_CreatedAt = \<lparr>t_instant = 100, t_offset = 3600\<rparr>,
      wt_Name = ''train'', wt_Version = 3,
      wt_Manifest = ''steps'', wt_IsLatest = True, wt_IsArchived = False\<rparr>"

definition example_instance :: "string option \<Rightarrow> nat \<Rightarrow> kube_Workflow" where
  "example_instance vlabel ended =
     \<lparr>kw_Name = ''wf-1'', kw_UID = ''uid-1'',
      kw_Labels = (\<lambda>k. if k = ''onepanel.io/workflow-template-uid'' then Some ''tmpl-1''
                        else if k = ''onepanel.io/workflow-template-version'' then vlabel
                        else None),
      kw_Status = \<lparr>st_FinishedAt = \<lparr>t_instant = ended, t_offset = 0\<rparr>, st_Body = ''phase''\<rparr>\<rparr>"

definition example_manager :: "string option \<Rightarrow> error option \<Rightarrow> error option \<Rightarrow> ResourceManager" where
  "example_manager vlabel create_err watch_err =
     \<lparr>labelKeyPrefix = ''onepanel.io/'',
      kubeClient_CreateWorkflow = (\<lambda>namespace manifest opts.
        case create_err of
          None \<Rightarrow> ([example_instance (Some ''3'') 0], None)
        | Some e \<Rightarrow> ([], Some e)),
      kubeClient_GetWorkflow = (\<lambda>namespace name.
        if name = ''wf-1'' then (Some (example_instance vlabel 0), None)
        else (None, Some (RawError ''workflows.argoproj.io not found''))),
      kubeClient_WatchWorkflow = (\<lambda>namespace name. watch_err),
      workflowRepository_GetWorkflowTemplate = (\<lambda>namespace uid version.
        if uid = ''tmpl-1'' \<and> version = 3 then (Some example_template, None) else (None, None)),
      json_Marshal = (\<lambda>st. (st_Body st, None))\<rparr>"

text \<open>The snapshot the bridge pushes for \<open>example_instance\<close> under that manager.\<close>

definition example_snapshot :: model_Workflow where
  "example_snapshot = zero_Workflow
     \<lparr>wf_UID := ''uid-1'', wf_Name := ''wf-1'', wf_Status := ''phase'',
      wf_WorkflowTemplate := Some example_template\<rparr>"

section \<open>Pagination: what \<open>ListWorkflows\<close> computes\<close>

lemma sint_neg_of_pos: "0 < sint (x::int32) \<Longrightarrow> sint (- x) = - sint x"
proof -
  assume pos: "0 < sint x"
  have lt: "sint x < 2 ^ 31" using sint_lt [of x] by simp
  have "sint (- x) = signed_take_bit 31 (- sint x)"
    by (simp add: sint_word_ariths word_size)
  also have "\<dots> = - sint x"
    using pos lt by (intro signed_take_bit_int_eq_self) simp_all
  finally show ?thesis .
qed

lemma sint_of_length: "n < 2 ^ 31 \<Longrightarrow> sint (word_of_int (int n) :: int32) = int n"
proof -
  assume n: "n < 2 ^ 31"
  have "sint (word_of_int (int n) :: int32) = signed_take_bit 31 (int n)"
    by (subst sint_sbintrunc') simp
  also have "\<dots> = int n"
    using n by (intro signed_take_bit_int_eq_self) simp_all
  finally show ?thesis .
qed

lemma page_bounds_end_below_len:
  assumes n: "n < 2 ^ 31" and pb: "page_bounds n reqPage reqPageSize = (page, pages, start, end1)"
  shows "sint end1 < int n"
proof -
  define len32 where "len32 = (word_of_int (int n) :: int32)"
  have len: "sint len32 = int n" unfolding len32_def by (rule sint_of_length [OF n])
  have dec: "sint (len32 - 1) < int n"
  proof (cases "n = 0")
    case True
    then show ?thesis by (simp add: len32_def)
  next
    case False
    have "sint (len32 - 1) = signed_take_bit 31 (sint len32 - 1)"
      by (simp add: sint_word_ariths word_size)
    also have "\<dots> = sint len32 - 1"
      using n False len by (intro signed_take_bit_int_eq_self) simp_all
    finally show ?thesis using len by simp
  qed
  have "end1 = snd (snd (snd (page_bounds n reqPage reqPageSize)))" using pb by simp
  then have "\<exists>end0. end1 = (if sint end0 \<ge> sint len32 then len32 - 1 else end0)"
    unfolding page_bounds_def Let_def snd_conv len32_def by (intro exI)
  then show ?thesis using dec len by (auto split: if_splits)
qed

text \<open>For an empty list the lower slice bound is negative, whatever the request says.\<close>

lemma page_bounds_empty:
  "\<exists>page pages start end1.
     page_bounds 0 reqPage reqPageSize = (page, pages, start, end1) \<and> sint start < 0"
proof -
  define pageSize where "pageSize = (if sint reqPageSize \<le> 0 then 15 else reqPageSize)"
  define page0 where "page0 = (if sint reqPage \<le> 0 then 1 else reqPage)"
  have ps: "0 < sint pageSize" by (simp add: pageSize_def)
  have p0: "0 < sint page0" by (simp add: page0_def)
  have "page_bounds 0 reqPage reqPageSize = (0, 0, - pageSize, - 1)"
    using ps p0
    unfolding page_bounds_def math_Ceil_div_def pageSize_def [symmetric] page0_def [symmetric]
    by (simp add: Let_def)
  moreover have "sint (- pageSize) < 0" using sint_neg_of_pos [OF ps] ps by simp
  ultimately show ?thesis by simp
qed

text \<open>
  Claim C1 (not met by the code). The claim asks, for 22 items and a page size of 15,
  that page 2 hold the 7 items from index 15 on, with count 7. The code moves the upper
  bound to \<open>len - 1\<close> when \<open>start + pageSize\<close> reaches the length, and the slice
  excludes its upper bound: page 2 holds the 6 items of indices 15 to 20, with count 6,
  and the last item is on no page.
\<close>

theorem C1_last_page_loses_last_item:
  "length ws = 22 \<Longrightarrow>
     ListWorkflows fmt (ws, None) 2 15 =
       Inr \<lparr>lr_Count = 6, lr_Workflows = map (apiWorkflow fmt) (take 6 (drop 15 ws)),
            lr_Page = 2, lr_Pages = 2, lr_TotalCount = 22\<rparr>"
  by (simp add: ListWorkflows_def page_bounds_def math_Ceil_div_def slice_def Let_def
      take_map drop_map)

theorem C1_last_page_loses_last_item_witness:
  "length (replicate 22 zero_Workflow) = 22 \<and>
   ListWorkflows (\<lambda>t. []) (replicate 22 zero_Workflow, None) 2 15 =
     Inr \<lparr>lr_Count = 6,
          lr_Workflows = map (apiWorkflow (\<lambda>t. [])) (take 6 (drop 15 (replicate 22 zero_Workflow))),
          lr_Page = 2, lr_Pages = 2, lr_TotalCount = 22\<rparr>"
  using C1_last_page_loses_last_item [of "replicate 22 zero_Workflow" "\<lambda>t. []"] by simp

text \<open>
  Claim C2 (not met by the code). For an empty list the claim asks for an empty page
  with \<open>pages = 0\<close> and \<open>count = 0\<close> and no out-of-range slice. The code clamps the page
  to \<open>pages = 0\<close>, so \<open>start = - pageSize\<close> is negative and the slice expression
  panics, for every page and page size requested.
\<close>

theorem C2_empty_list_panics:
  "ListWorkflows fmt ([], None) reqPage reqPageSize = Inl Panic"
proof -
  obtain page pages start end1 where
    pb: "page_bounds 0 reqPage reqPageSize = (page, pages, start, end1)"
    and neg: "sint start < 0"
    using page_bounds_empty by blast
  then show ?thesis by (simp add: ListWorkflows_def slice_def)
qed

section \<open>\<open>ParseInt\<close> against the spec's words, and the round trip with \<open>Sprint\<close>\<close>

lemma digits_nth: "d < 10 \<Longrightarrow> is_digit (digits ! d) \<and> digit_val (digits ! d) = d"
proof -
  assume "d < 10"
  then consider "d = 0" | "d = 1" | "d = 2" | "d = 3" | "d = 4" | "d = 5" | "d = 6" | "d = 7" | "d = 8" | "d = 9"
    by atomize_elim arith
  then show ?thesis
    by cases (simp_all add: digits_def is_digit_def digit_val_def)
qed

lemma foldl_digits_ge: "n \<le> foldl (\<lambda>a c. 10 * a + digit_val c) n cs"
proof (induction cs arbitrary: n)
  case Nil show ?case by simp
next
  case (Cons c cs)
  have "n \<le> 10 * n + digit_val c" by simp
  also have "\<dots> \<le> foldl (\<lambda>a c. 10 * a + digit_val c) (10 * n + digit_val c) cs" by (rule Cons.IH)
  finally show ?case by simp
qed

lemma ParseUint_loop_digits:
  "n \<le> M \<Longrightarrow> M < 2 ^ 32 \<Longrightarrow> list_all is_digit cs \<Longrightarrow>
     ParseUint_loop M n cs =
       (if foldl (\<lambda>a c. 10 * a + digit_val c) n cs \<le> M
        then (foldl (\<lambda>a c. 10 * a + digit_val c) n cs, None) else (M, Some ErrRange))"
proof (induction cs arbitrary: n)
  case Nil
  then show ?case by simp
next
  case (Cons c cs)
  let ?n1 = "10 * n + digit_val c"
  from Cons.prems have c: "is_digit c" and cs: "list_all is_digit cs" by simp_all
  from c have d: "digit_val c < 10" by (auto simp: is_digit_def digit_val_def)
  from Cons.prems have nlt: "n < 2 ^ 32" by simp
  have cut: "\<not> n \<ge> maxUint64 div 10 + 1" using nlt by (simp add: maxUint64_def)
  have n10: "(n * 10) mod 2 ^ 64 = n * 10" using nlt by simp
  have n1: "(n * 10 + digit_val c) mod 2 ^ 64 = ?n1" using nlt d by simp
  show ?case
  proof (cases "?n1 \<le> M")
    case True
    have "ParseUint_loop M n (c # cs) = ParseUint_loop M ?n1 cs"
      using c cut n10 n1 True by (simp add: Let_def)
    also have "\<dots> = (if foldl (\<lambda>a c. 10 * a + digit_val c) ?n1 cs \<le> M
        then (foldl (\<lambda>a c. 10 * a + digit_val c) ?n1 cs, None) else (M, Some ErrRange))"
      using Cons.IH [OF True Cons.prems(2) cs] .
    finally show ?thesis by simp
  next
    case False
    have "ParseUint_loop M n (c # cs) = (M, Some ErrRange)"
      using c cut n10 n1 False by (simp add: Let_def)
    moreover have "\<not> foldl (\<lambda>a c. 10 * a + digit_val c) ?n1 cs \<le> M"
      using foldl_digits_ge [of ?n1 cs] False by linarith
    ultimately show ?thesis by simp
  qed
qed

lemma ParseUint_loop_nondigit:
  "\<not> list_all is_digit cs \<Longrightarrow>
     ParseUint_loop M n cs = (0, Some ErrSyntax) \<or> ParseUint_loop M n cs = (M, Some ErrRange)"
  by (induction cs arbitrary: n) (auto simp: Let_def)

lemma ParseUint_digits:
  assumes "s \<noteq> []" and "list_all is_digit s"
  shows "ParseUint s =
    (if decimal_value s < 2 ^ 32 then (decimal_value s, None) else (2 ^ 32 - 1, Some ErrRange))"
proof -
  have "ParseUint s = ParseUint_loop (2 ^ 32 - 1) 0 s"
    using assms(1) by (simp add: ParseUint_def)
  also have "\<dots> = (if decimal_value s \<le> 2 ^ 32 - 1 then (decimal_value s, None)
                    else (2 ^ 32 - 1, Some ErrRange))"
    unfolding decimal_value_def using assms(2) by (intro ParseUint_loop_digits) simp_all
  also have "\<dots> = (if decimal_value s < 2 ^ 32 then (decimal_value s, None)
                    else (2 ^ 32 - 1, Some ErrRange))"
    by auto
  finally show ?thesis .
qed

lemma ParseUint_malformed:
  assumes "s = [] \<or> \<not> list_all is_digit s"
  shows "ParseUint s = (0, Some ErrSyntax) \<or> ParseUint s = (2 ^ 32 - 1, Some ErrRange)"
proof (cases "s = []")
  case True
  then show ?thesis by (simp add: ParseUint_def)
next
  case False
  with assms have "\<not> list_all is_digit s" by simp
  from ParseUint_loop_nondigit [OF this, of "2 ^ 32 - 1" 0] False
  show ?thesis by (simp add: ParseUint_def)
qed

lemma is_digit_not_sign: "is_digit c \<Longrightarrow> c \<noteq> CHR ''+'' \<and> c \<noteq> CHR ''-''"
  by (auto simp: is_digit_def)

lemma ParseInt_wellformed:
  assumes ne: "s \<noteq> []"
    and body: "body = (if hd s = CHR ''+'' \<or> hd s = CHR ''-'' then tl s else s)"
    and wf: "body \<noteq> []" "list_all is_digit body"
  shows "ParseInt s =
    (if hd s = CHR ''-''
     then (if decimal_value body \<le> 2 ^ 31 then (- int (decimal_value body), None)
           else (- (2 ^ 31), Some ErrRange))
     else (if decimal_value body < 2 ^ 31 then (int (decimal_value body), None)
           else (2 ^ 31 - 1, Some ErrRange)))"
proof -
  have s1: "(if hd s = CHR ''+'' then tl s else if hd s = CHR ''-'' then tl s else s) = body"
    using body by auto
  have pu: "ParseUint body =
    (if decimal_value body < 2 ^ 32 then (decimal_value body, None) else (2 ^ 32 - 1, Some ErrRange))"
    by (rule ParseUint_digits [OF wf])
  show ?thesis
    unfolding ParseInt_def Let_def s1 pu using ne by simp
qed

lemma ParseInt_malformed:
  assumes ne: "s \<noteq> []"
    and body: "body = (if hd s = CHR ''+'' \<or> hd s = CHR ''-'' then tl s else s)"
    and bad: "body = [] \<or> \<not> list_all is_digit body"
  shows "snd (ParseInt s) \<noteq> None"
proof -
  have s1: "(if hd s = CHR ''+'' then tl s else if hd s = CHR ''-'' then tl s else s) = body"
    using body by auto
  from ParseUint_malformed [OF bad] show ?thesis
  proof
    assume pu: "ParseUint body = (0, Some ErrSyntax)"
    show ?thesis unfolding ParseInt_def Let_def s1 pu using ne by simp
  next
    assume pu: "ParseUint body = (2 ^ 32 - 1, Some ErrRange)"
    show ?thesis unfolding ParseInt_def Let_def s1 pu using ne by simp
  qed
qed

lemma base10_int32_body:
  assumes ne: "s \<noteq> []"
    and body: "body = (if hd s = CHR ''+'' \<or> hd s = CHR ''-'' then tl s else s)"
  shows "base10_int32 s \<longleftrightarrow>
    body \<noteq> [] \<and> list_all is_digit body \<and>
    (if hd s = CHR ''-'' then decimal_value body \<le> 2 ^ 31 else decimal_value body < 2 ^ 31)"
  using ne body by (cases s) (auto simp: base10_int32_def)

lemma ParseInt_ok_iff: "snd (ParseInt s) = None \<longleftrightarrow> base10_int32 s"
proof (cases "s = []")
  case True
  then show ?thesis by (simp add: ParseInt_def base10_int32_def)
next
  case ne: False
  define body where "body = (if hd s = CHR ''+'' \<or> hd s = CHR ''-'' then tl s else s)"
  show ?thesis
  proof (cases "body \<noteq> [] \<and> list_all is_digit body")
    case True
    then have wf: "body \<noteq> []" "list_all is_digit body" by simp_all
    show ?thesis
      unfolding ParseInt_wellformed [OF ne body_def wf] base10_int32_body [OF ne body_def]
      using wf by simp
  next
    case False
    then have bad: "body = [] \<or> \<not> list_all is_digit body" by simp
    have "snd (ParseInt s) \<noteq> None" by (rule ParseInt_malformed [OF ne body_def bad])
    moreover have "\<not> base10_int32 s"
      unfolding base10_int32_body [OF ne body_def] using False by blast
    ultimately show ?thesis by blast
  qed
qed

lemma foldl_decimal: "foldl (\<lambda>a c. 10 * a + digit_val c) 0 (decimal m) = m"
proof (induction m rule: decimal.induct)
  case (1 n)
  show ?case
  proof (cases "n < 10")
    case True
    then show ?thesis using digits_nth [of n] by (simp add: decimal.simps [of n])
  next
    case False
    have "n mod 10 < 10" by simp
    then show ?thesis using False 1 digits_nth [of "n mod 10"]
      by (simp add: decimal.simps [of n])
  qed
qed

lemma decimal_value_decimal: "decimal_value (decimal m) = m"
  by (simp add: decimal_value_def foldl_decimal)

lemma digits_decimal: "list_all is_digit (decimal m)"
proof (induction m rule: decimal.induct)
  case (1 n)
  show ?case
  proof (cases "n < 10")
    case True
    then show ?thesis using digits_nth [of n] by (simp add: decimal.simps [of n])
  next
    case False
    have "n mod 10 < 10" by simp
    then show ?thesis using False 1 digits_nth [of "n mod 10"]
      by (simp add: decimal.simps [of n])
  qed
qed

lemma decimal_nonempty: "decimal m \<noteq> []"
  by (subst decimal.simps) simp

lemma hd_decimal: "hd (decimal m) \<noteq> CHR ''+'' \<and> hd (decimal m) \<noteq> CHR ''-''"
proof -
  have "is_digit (hd (decimal m))"
    using digits_decimal [of m] decimal_nonempty [of m] by (cases "decimal m") simp_all
  then show ?thesis by (rule is_digit_not_sign)
qed

lemma ParseInt_Sprint: "ParseInt (fmt_Sprint v) = (sint v, None)"
proof (cases "sint v < 0")
  case True
  define m where "m = nat (- sint v)"
  have le: "m \<le> 2 ^ 31" using sint_ge [of v] by (simp add: m_def)
  have s: "fmt_Sprint v = CHR ''-'' # decimal m" using True by (simp add: fmt_Sprint_def m_def)
  have "ParseInt (CHR ''-'' # decimal m) = (- int m, None)"
    using le
    by (subst ParseInt_wellformed [where body = "decimal m"])
       (simp_all add: decimal_nonempty digits_decimal decimal_value_decimal)
  then show ?thesis using True by (simp add: s m_def)
next
  case False
  define m where "m = nat (sint v)"
  have lt: "m < 2 ^ 31" using sint_lt [of v] False by (simp add: m_def)
  have s: "fmt_Sprint v = decimal m" using False by (simp add: fmt_Sprint_def m_def)
  have "ParseInt (decimal m) = (int m, None)"
    using lt hd_decimal [of m]
    by (subst ParseInt_wellformed [where body = "decimal m"])
       (simp_all add: decimal_nonempty digits_decimal decimal_value_decimal)
  then show ?thesis using False by (simp add: s m_def)
qed

lemma keys_distinct: "workflowTemplateUIDLabelKey p \<noteq> workflowTemplateVersionLabelKey p"
  by (simp add: workflowTemplateUIDLabelKey_def workflowTemplateVersionLabelKey_def)

text \<open>
  Claim C4. Stamping the two correlation labels into any label map (the uid as it is,
  the version as \<open>fmt.Sprint\<close> renders it) and resolving them back (the uid label as it
  is, the version label through \<open>strconv.ParseInt\<close> in base 10 on 32 bits) gives the
  uid and the version stamped, for every uid and every \<open>int32\<close> version.
\<close>

theorem C4_resolve_stamp:
  "resolve prefix (stamp prefix labels uid version) = Inr (uid, version)"
  using keys_distinct [of prefix]
  by (simp add: resolve_def stamp_def map_index_def ParseInt_Sprint)

section \<open>The manager's operations\<close>

lemma GetWorkflowTemplate_found:
  "workflowRepository_GetWorkflowTemplate r namespace uid version = (Some t, None) \<Longrightarrow>
     GetWorkflowTemplate r namespace uid version = (Some t, None)"
  by (simp add: GetWorkflowTemplate_def)

lemma GetWorkflowTemplate_absent:
  "workflowRepository_GetWorkflowTemplate r namespace uid version = (None, None) \<Longrightarrow>
     GetWorkflowTemplate r namespace uid version =
       (None, Some (UserError NotFound ''Workflow template not found.''))"
  by (simp add: GetWorkflowTemplate_def NewUserError_def)

lemma GetWorkflowTemplate_cases:
  "(\<exists>t. GetWorkflowTemplate r namespace uid version = (Some t, None) \<and>
        workflowRepository_GetWorkflowTemplate r namespace uid version = (Some t, None)) \<or>
   (\<exists>e. GetWorkflowTemplate r namespace uid version = (None, Some e))"
  by (cases "workflowRepository_GetWorkflowTemplate r namespace uid version")
     (auto simp: GetWorkflowTemplate_def)

lemma resolve_malformed:
  "\<not> base10_int32 (map_index labels (workflowTemplateVersionLabelKey prefix)) \<Longrightarrow>
     resolve prefix labels = Inl (UserError InvalidArgument ''Invalid version number.'')"
  using ParseInt_ok_iff [of "map_index labels (workflowTemplateVersionLabelKey prefix)"]
  by (cases "ParseInt (map_index labels (workflowTemplateVersionLabelKey prefix))")
     (simp add: resolve_def NewUserError_def)

text \<open>
  Claim C5. \<open>GetWorkflow\<close> fails with \<open>NotFound\<close> when the client's get call fails (the
  instance does not exist), and with \<open>InvalidArgument\<close> when the instance exists and its
  version label is not a base-10 32-bit integer in the spec's sense, in particular when
  the label is absent.
\<close>

theorem C5_GetWorkflow_errors:
  "(kubeClient_GetWorkflow r namespace name = (x, Some e) \<longrightarrow>
      GetWorkflow r namespace name = Returns (None, Some (UserError NotFound ''Workflow not found.'')))
   \<and> (kubeClient_GetWorkflow r namespace name = (Some w, None) \<and>
        \<not> base10_int32 (map_index (kw_Labels w) (workflowTemplateVersionLabelKey (labelKeyPrefix r))) \<longrightarrow>
      GetWorkflow r namespace name =
        Returns (None, Some (UserError InvalidArgument ''Invalid version number.'')))
   \<and> (kubeClient_GetWorkflow r namespace name = (Some w, None) \<and>
        kw_Labels w (workflowTemplateVersionLabelKey (labelKeyPrefix r)) = None \<longrightarrow>
      GetWorkflow r namespace name =
        Returns (None, Some (UserError InvalidArgument ''Invalid version number.'')))"
proof (intro conjI impI)
  assume "kubeClient_GetWorkflow r namespace name = (x, Some e)"
  then show "GetWorkflow r namespace name = Returns (None, Some (UserError NotFound ''Workflow not found.''))"
    by (simp add: GetWorkflow_def NewUserError_def split: option.splits)
next
  assume "kubeClient_GetWorkflow r namespace name = (Some w, None) \<and>
        \<not> base10_int32 (map_index (kw_Labels w) (workflowTemplateVersionLabelKey (labelKeyPrefix r)))"
  then show "GetWorkflow r namespace name =
        Returns (None, Some (UserError InvalidArgument ''Invalid version number.''))"
    by (simp add: GetWorkflow_def resolve_malformed)
next
  assume a: "kubeClient_GetWorkflow r namespace name = (Some w, None) \<and>
        kw_Labels w (workflowTemplateVersionLabelKey (labelKeyPrefix r)) = None"
  then have "\<not> base10_int32 (map_index (kw_Labels w) (workflowTemplateVersionLabelKey (labelKeyPrefix r)))"
    by (simp add: map_index_def base10_int32_def)
  with a show "GetWorkflow r namespace name =
        Returns (None, Some (UserError InvalidArgument ''Invalid version number.''))"
    by (simp add: GetWorkflow_def resolve_malformed)
qed

theorem C5_GetWorkflow_errors_witness:
  "GetWorkflow (example_manager (Some ''v3'') None None) ''ns'' ''wf-0'' =
     Returns (None, Some (UserError NotFound ''Workflow not found.''))
   \<and> GetWorkflow (example_manager (Some ''v3'') None None) ''ns'' ''wf-1'' =
     Returns (None, Some (UserError InvalidArgument ''Invalid version number.''))
   \<and> GetWorkflow (example_manager None None None) ''ns'' ''wf-1'' =
     Returns (None, Some (UserError InvalidArgument ''Invalid version number.''))"
proof -
  have 1: "GetWorkflow (example_manager (Some ''v3'') None None) ''ns'' ''wf-0'' =
     Returns (None, Some (UserError NotFound ''Workflow not found.''))"
    using C5_GetWorkflow_errors [of "example_manager (Some ''v3'') None None" "''ns''" "''wf-0''"
        None "RawError ''workflows.argoproj.io not found''"]
    by (simp add: example_manager_def)
  have 2: "GetWorkflow (example_manager (Some ''v3'') None None) ''ns'' ''wf-1'' =
     Returns (None, Some (UserError InvalidArgument ''Invalid version number.''))"
    using C5_GetWorkflow_errors [of "example_manager (Some ''v3'') None None" "''ns''" "''wf-1''"
        _ _ "example_instance (Some ''v3'') 0"]
    by (simp add: example_manager_def example_instance_def map_index_def
        workflowTemplateVersionLabelKey_def base10_int32_def is_digit_def)
  have 3: "GetWorkflow (example_manager None None None) ''ns'' ''wf-1'' =
     Returns (None, Some (UserError InvalidArgument ''Invalid version number.''))"
    using C5_GetWorkflow_errors [of "example_manager None None None" "''ns''" "''wf-1''"
        _ _ "example_instance None 0"]
    by (simp add: example_manager_def example_instance_def workflowTemplateVersionLabelKey_def)
  from 1 2 3 show ?thesis by blast
qed

lemma CreateWorkflow_success:
  assumes "wf_WorkflowTemplate workflow = Some ref"
    and "workflowRepository_GetWorkflowTemplate r namespace (wt_UID ref) (wt_Version ref) = (Some t, None)"
    and "kubeClient_CreateWorkflow r namespace (wt_Manifest t)
           \<lparr>o_Parameters = map (\<lambda>param. (p_Name param, p_Value param)) (wf_Parameters workflow),
            o_Labels = Some (stamp (labelKeyPrefix r) Map.empty (wt_UID t) (wt_Version t))\<rparr>
         = (created # rest, None)"
  shows "CreateWorkflow r namespace workflow =
           Returns (Some (workflow\<lparr>wf_Name := kw_Name created, wf_UID := kw_UID created,
                                   wf_WorkflowTemplate := Some (t\<lparr>wt_Manifest := []\<rparr>)\<rparr>), None)"
  using assms by (simp add: CreateWorkflow_def GetWorkflowTemplate_found)

lemma CreateWorkflow_template_absent:
  assumes "wf_WorkflowTemplate workflow = Some ref"
    and "workflowRepository_GetWorkflowTemplate r namespace (wt_UID ref) (wt_Version ref) = (None, None)"
  shows "CreateWorkflow r namespace workflow =
           Returns (None, Some (UserError NotFound ''Workflow template not found.''))"
  using assms by (simp add: CreateWorkflow_def GetWorkflowTemplate_absent)

lemma CreateWorkflow_returned:
  assumes "CreateWorkflow r namespace workflow = Returns (Some w', None)"
  shows "\<exists>ref t created rest.
           wf_WorkflowTemplate workflow = Some ref \<and>
           workflowRepository_GetWorkflowTemplate r namespace (wt_UID ref) (wt_Version ref) = (Some t, None) \<and>
           kubeClient_CreateWorkflow r namespace (wt_Manifest t)
             \<lparr>o_Parameters = map (\<lambda>param. (p_Name param, p_Value param)) (wf_Parameters workflow),
              o_Labels = Some (stamp (labelKeyPrefix r) Map.empty (wt_UID t) (wt_Version t))\<rparr>
             = (created # rest, None) \<and>
           w' = workflow\<lparr>wf_Name := kw_Name created, wf_UID := kw_UID created,
                          wf_WorkflowTemplate := Some (t\<lparr>wt_Manifest := []\<rparr>)\<rparr>"
proof -
  from assms obtain ref where ref: "wf_WorkflowTemplate workflow = Some ref"
    by (cases "wf_WorkflowTemplate workflow") (simp_all add: CreateWorkflow_def)
  from GetWorkflowTemplate_cases [of r namespace "wt_UID ref" "wt_Version ref"]
  obtain t where t: "GetWorkflowTemplate r namespace (wt_UID ref) (wt_Version ref) = (Some t, None)"
    and repo: "workflowRepository_GetWorkflowTemplate r namespace (wt_UID ref) (wt_Version ref) = (Some t, None)"
    using assms ref by (auto simp: CreateWorkflow_def)
  let ?opts = "\<lparr>o_Parameters = map (\<lambda>param. (p_Name param, p_Value param)) (wf_Parameters workflow),
              o_Labels = Some (stamp (labelKeyPrefix r) Map.empty (wt_UID t) (wt_Version t))\<rparr>"
  obtain cs err where k: "kubeClient_CreateWorkflow r namespace (wt_Manifest t) ?opts = (cs, err)"
    by (cases "kubeClient_CreateWorkflow r namespace (wt_Manifest t) ?opts")
  from assms ref t k obtain created rest where c: "cs = created # rest" "err = None"
    and w': "w' = workflow\<lparr>wf_Name := kw_Name created, wf_UID := kw_UID created,
                          wf_WorkflowTemplate := Some (t\<lparr>wt_Manifest := []\<rparr>)\<rparr>"
    by (cases cs; cases err) (simp_all add: CreateWorkflow_def)
  from ref repo k c w' show ?thesis by blast
qed

text \<open>
  Claim C9. When the template is found and the client's create call succeeds,
  \<open>CreateWorkflow\<close> returns the workflow it was given with the name and uid of the
  created instance and with the resolved template attached, its manifest cleared; when
  the store has no such template it fails with \<open>NotFound\<close>; and every successful return
  is of the first kind.
\<close>

theorem C9_CreateWorkflow:
  "(wf_WorkflowTemplate workflow = Some ref \<and>
    workflowRepository_GetWorkflowTemplate r namespace (wt_UID ref) (wt_Version ref) = (Some t, None) \<and>
    kubeClient_CreateWorkflow r namespace (wt_Manifest t)
      \<lparr>o_Parameters = map (\<lambda>param. (p_Name param, p_Value param)) (wf_Parameters workflow),
       o_Labels = Some (stamp (labelKeyPrefix r) Map.empty (wt_UID t) (wt_Version t))\<rparr>
      = (created # rest, None) \<longrightarrow>
    CreateWorkflow r namespace workflow =
      Returns (Some (workflow\<lparr>wf_Name := kw_Name created, wf_UID := kw_UID created,
                              wf_WorkflowTemplate := Some (t\<lparr>wt_Manifest := []\<rparr>)\<rparr>), None))
   \<and> (wf_WorkflowTemplate workflow = Some ref \<and>
      workflowRepository_GetWorkflowTemplate r namespace (wt_UID ref) (wt_Version ref) = (None, None) \<longrightarrow>
      CreateWorkflow r namespace workflow =
        Returns (None, Some (UserError NotFound ''Workflow template not found.'')))
   \<and> (CreateWorkflow r namespace workflow = Returns (Some w', None) \<longrightarrow>
      (\<exists>ref' t' created' rest'.
         wf_WorkflowTemplate workflow = Some ref' \<and>
         workflowRepository_GetWorkflowTemplate r namespace (wt_UID ref') (wt_Version ref') = (Some t', None) \<and>
         kubeClient_CreateWorkflow r namespace (wt_Manifest t')
           \<lparr>o_Parameters = map (\<lambda>param. (p_Name param, p_Value param)) (wf_Parameters workflow),
            o_Labels = Some (stamp (labelKeyPrefix r) Map.empty (wt_UID t') (wt_Version t'))\<rparr>
           = (created' # rest', None) \<and>
         w' = workflow\<lparr>wf_Name := kw_Name created', wf_UID := kw_UID created',
                        wf_WorkflowTemplate := Some (t'\<lparr>wt_Manifest := []\<rparr>)\<rparr>))"
proof (intro conjI impI)
  assume "wf_WorkflowTemplate workflow = Some ref \<and>
    workflowRepository_GetWorkflowTemplate r namespace (wt_UID ref) (wt_Version ref) = (Some t, None) \<and>
    kubeClient_CreateWorkflow r namespace (wt_Manifest t)
      \<lparr>o_Parameters = map (\<lambda>param. (p_Name param, p_Value param)) (wf_Parameters workflow),
       o_Labels = Some (stamp (labelKeyPrefix r) Map.empty (wt_UID t) (wt_Version t))\<rparr>
      = (created # rest, None)"
  then show "CreateWorkflow r namespace workflow =
      Returns (Some (workflow\<lparr>wf_Name := kw_Name created, wf_UID := kw_UID created,
                              wf_WorkflowTemplate := Some (t\<lparr>wt_Manifest := []\<rparr>)\<rparr>), None)"
    using CreateWorkflow_success [of workflow ref r namespace t created rest] by blast
next
  assume "wf_WorkflowTemplate workflow = Some ref \<and>
      workflowRepository_GetWorkflowTemplate r namespace (wt_UID ref) (wt_Version ref) = (None, None)"
  then show "CreateWorkflow r namespace workflow =
        Returns (None, Some (UserError NotFound ''Workflow template not found.''))"
    using CreateWorkflow_template_absent [of workflow ref r namespace] by blast
next
  assume "CreateWorkflow r namespace workflow = Returns (Some w', None)"
  then show "\<exists>ref' t' created' rest'.
         wf_WorkflowTemplate workflow = Some ref' \<and>
         workflowRepository_GetWorkflowTemplate r namespace (wt_UID ref') (wt_Version ref') = (Some t', None) \<and>
         kubeClient_CreateWorkflow r namespace (wt_Manifest t')
           \<lparr>o_Parameters = map (\<lambda>param. (p_Name param, p_Value param)) (wf_Parameters workflow),
            o_Labels = Some (stamp (labelKeyPrefix r) Map.empty (wt_UID t') (wt_Version t'))\<rparr>
           = (created' # rest', None) \<and>
         w' = workflow\<lparr>wf_Name := kw_Name created', wf_UID := kw_UID created',
                        wf_WorkflowTemplate := Some (t'\<lparr>wt_Manifest := []\<rparr>)\<rparr>"
    by (rule CreateWorkflow_returned)
qed

theorem C9_CreateWorkflow_witness:
  "CreateWorkflow (example_manager None None None) ''ns''
       (zero_Workflow\<lparr>wf_WorkflowTemplate := Some example_template\<rparr>) =
     Returns (Some (zero_Workflow\<lparr>wf_Name := ''wf-1'', wf_UID := ''uid-1'',
                     wf_WorkflowTemplate := Some (example_template\<lparr>wt_Manifest := []\<rparr>)\<rparr>), None)
   \<and> CreateWorkflow (example_manager None None None) ''ns''
       (zero_Workflow\<lparr>wf_WorkflowTemplate := Some (example_template\<lparr>wt_Version := 4\<rparr>)\<rparr>) =
     Returns (None, Some (UserError NotFound ''Workflow template not found.''))"
proof -
  let ?r = "example_manager None None None"
  let ?w = "zero_Workflow\<lparr>wf_WorkflowTemplate := Some example_template\<rparr>"
  let ?w4 = "zero_Workflow\<lparr>wf_WorkflowTemplate := Some (example_template\<lparr>wt_Version := 4\<rparr>)\<rparr>"
  have 1: "CreateWorkflow ?r ''ns'' ?w =
     Returns (Some (?w\<lparr>wf_Name := kw_Name (example_instance (Some ''3'') 0),
                       wf_UID := kw_UID (example_instance (Some ''3'') 0),
                       wf_WorkflowTemplate := Some (example_template\<lparr>wt_Manifest := []\<rparr>)\<rparr>), None)"
    by (rule C9_CreateWorkflow [where ref = example_template and t = example_template
          and rest = "[]", THEN conjunct1, rule_format])
       (simp add: example_manager_def example_template_def)
  have 2: "CreateWorkflow ?r ''ns'' ?w4 =
     Returns (None, Some (UserError NotFound ''Workflow template not found.''))"
    by (rule C9_CreateWorkflow [where ref = "example_template\<lparr>wt_Version := 4\<rparr>",
          THEN conjunct2, THEN conjunct1, rule_format])
       (simp add: example_manager_def example_template_def)
  from 1 2 show ?thesis by (simp add: example_instance_def)
qed

text \<open>
  Claim C8 (not met by the code). The claim asks that a failed initial fetch be reported
  with the error of the fetch. \<open>WatchWorkflow\<close> throws that error away and answers
  \<open>NotFound\<close>, "Workflow template not found.", whatever the fetch said: an instance
  whose version label is not a number makes \<open>GetWorkflow\<close> fail with \<open>InvalidArgument\<close>
  and \<open>WatchWorkflow\<close> with \<open>NotFound\<close>, and for an instance that does not exist the
  message names the template, not the workflow.
\<close>

theorem C8_fetch_error_replaced:
  "GetWorkflow (example_manager (Some ''v3'') None None) ''ns'' ''wf-1'' =
     Returns (None, Some (UserError InvalidArgument ''Invalid version number.''))
   \<and> WatchWorkflow (example_manager (Some ''v3'') None None) ''ns'' ''wf-1'' =
     Returns (None, Some (UserError NotFound ''Workflow template not found.''))
   \<and> GetWorkflow (example_manager (Some ''3'') None None) ''ns'' ''wf-0'' =
     Returns (None, Some (UserError NotFound ''Workflow not found.''))
   \<and> WatchWorkflow (example_manager (Some ''3'') None None) ''ns'' ''wf-0'' =
     Returns (None, Some (UserError NotFound ''Workflow template not found.''))"
proof -
  have g: "GetWorkflow (example_manager (Some ''v3'') None None) ''ns'' ''wf-1'' =
     Returns (None, Some (UserError InvalidArgument ''Invalid version number.''))"
    by (simp add: GetWorkflow_def example_manager_def example_instance_def resolve_def
        map_index_def workflowTemplateVersionLabelKey_def workflowTemplateUIDLabelKey_def
        ParseInt_def ParseUint_def is_digit_def NewUserError_def)
  have h: "GetWorkflow (example_manager (Some ''3'') None None) ''ns'' ''wf-0'' =
     Returns (None, Some (UserError NotFound ''Workflow not found.''))"
    by (simp add: GetWorkflow_def example_manager_def NewUserError_def)
  from g h show ?thesis by (simp add: WatchWorkflow_def NewUserError_def)
qed

section \<open>Errors at the gRPC boundary\<close>

lemma CreateWorkflow_client_error:
  assumes "wf_WorkflowTemplate workflow = Some ref"
    and "workflowRepository_GetWorkflowTemplate r namespace (wt_UID ref) (wt_Version ref) = (Some t, None)"
    and "\<forall>manifest opts. kubeClient_CreateWorkflow r namespace manifest opts = (cs, Some e)"
  shows "CreateWorkflow r namespace workflow = Returns (None, Some e)"
  using assms by (simp add: CreateWorkflow_def GetWorkflowTemplate_found split: list.splits)

text \<open>
  Claim C7 (not met by the code). When the template is found and the client's create
  call fails with an error that is not a user error, the manager's \<open>CreateWorkflow\<close>
  returns that error as it is, and the handler \<open>WorkflowServer.CreateWorkflow\<close>, which
  answers user errors only, goes on to \<open>apiWorkflow\<close> of the nil workflow: the request
  ends in a nil dereference, with no classified error and the collaborator's error lost.
\<close>

theorem C7_raw_error_dropped:
  assumes "cr_Workflow req = Some reqw" and "aw_WorkflowTemplate reqw = Some reqt"
    and "workflowRepository_GetWorkflowTemplate r (cr_Namespace req) (awt_Uid reqt) (awt_Version reqt)
           = (Some t, None)"
    and "\<forall>manifest opts. kubeClient_CreateWorkflow r (cr_Namespace req) manifest opts
           = (cs, Some (RawError msg))"
  shows "WorkflowServer_CreateWorkflow fmt r req = Inl Panic"
proof -
  let ?ref = "\<lparr>wt_UID = awt_Uid reqt, wt_CreatedAt = zero_time, wt_Name = [],
         wt_Version = awt_Version reqt, wt_Manifest = [],
         wt_IsLatest = False, wt_IsArchived = False\<rparr>"
  let ?workflow = "zero_Workflow
     \<lparr>wf_Parameters := map (\<lambda>(n, v). \<lparr>p_Name = n, p_Value = Some v\<rparr>) (aw_Parameters reqw),
      wf_WorkflowTemplate := Some ?ref\<rparr>"
  have ref: "wf_WorkflowTemplate ?workflow = Some ?ref" by simp
  have repo: "workflowRepository_GetWorkflowTemplate r (cr_Namespace req) (wt_UID ?ref) (wt_Version ?ref)
                = (Some t, None)"
    using assms(3) by simp
  have "CreateWorkflow r (cr_Namespace req) ?workflow = Returns (None, Some (RawError msg))"
    by (rule CreateWorkflow_client_error [OF ref repo assms(4)])
  then show ?thesis
    using assms(1,2) by (simp add: WorkflowServer_CreateWorkflow_def apiWorkflow_ptr_def)
qed

theorem C7_raw_error_dropped_witness:
  "WorkflowServer_CreateWorkflow (\<lambda>t. [])
     (example_manager None (Some (RawError ''connection refused'')) None)
     \<lparr>cr_Namespace = ''ns'',
      cr_Workflow = Some (apiWorkflow (\<lambda>t. [])
        (zero_Workflow\<lparr>wf_WorkflowTemplate := Some example_template\<rparr>))\<rparr>
   = Inl Panic"
proof -
  let ?reqt = "\<lparr>awt_Uid = ''tmpl-1'', awt_CreatedAt = [], awt_Name = ''train'', awt_Version = 3,
                awt_Manifest = ''steps'', awt_IsLatest = True, awt_IsArchived = False\<rparr>"
  let ?reqw = "apiWorkflow (\<lambda>t. []) (zero_Workflow\<lparr>wf_WorkflowTemplate := Some example_template\<rparr>)"
  let ?req = "\<lparr>cr_Namespace = ''ns'', cr_Workflow = Some ?reqw\<rparr>"
  let ?r = "example_manager None (Some (RawError ''connection refused'')) None"
  have 1: "cr_Workflow ?req = Some ?reqw" by simp
  have 2: "aw_WorkflowTemplate ?reqw = Some ?reqt"
    by (simp add: apiWorkflow_def example_template_def zero_Workflow_def)
  have 3: "workflowRepository_GetWorkflowTemplate ?r (cr_Namespace ?req) (awt_Uid ?reqt) (awt_Version ?reqt)
             = (Some example_template, None)"
    by (simp add: example_manager_def)
  have 4: "\<forall>manifest opts. kubeClient_CreateWorkflow ?r (cr_Namespace ?req) manifest opts
             = ([], Some (RawError ''connection refused''))"
    by (simp add: example_manager_def)
  show ?thesis by (rule C7_raw_error_dropped [OF 1 2 3 4])
qed

section \<open>The stream bridge\<close>

lemma bridge_select_idle:
  "c = Tick \<or> c = Event None \<Longrightarrow> bridge_select marshal fetched None c = (None, Continue)"
  by (auto simp: bridge_select_def)

lemma bridge_select_malformed:
  "bridge_select marshal fetched workflow (Event None) = (None, Continue)"
  by (simp add: bridge_select_def)

lemma bridge_loop_idle:
  "list_all (\<lambda>c. c = Tick \<or> c = Event None) cs \<Longrightarrow>
     bridge_loop marshal fetched None receives (cs @ rest) =
       bridge_loop marshal fetched None receives rest"
  by (induction cs) (simp_all add: bridge_select_idle)

lemma stream_loop_ticks:
  "stream_loop fmt (Some w) (replicate n (StreamTick, None)) =
     (replicate n (apiWorkflow fmt w), Selecting)"
  by (induction n) simp_all

text \<open>
  Claim C10. An event whose object is not a workflow leaves the bridge holding nothing,
  whatever it held before: the ticks that follow push nothing, the loop goes on
  (neither closed nor dead), and from then on it behaves as a bridge that never held an
  object, until an event brings one.
\<close>

theorem C10_malformed_event_discards_held:
  "bridge_loop marshal fetched held receives (Event None # replicate n Tick) = ([], Streaming)
   \<and> bridge_loop marshal fetched held receives (Event None # replicate n Tick @ cs) =
       bridge_loop marshal fetched None receives cs"
proof -
  have ticks: "list_all (\<lambda>c. c = Tick \<or> c = Event None) (replicate n Tick)"
    by (simp add: list_all_iff)
  have "bridge_loop marshal fetched None receives (replicate n Tick @ []) =
          bridge_loop marshal fetched None receives []"
    by (rule bridge_loop_idle [OF ticks])
  moreover have "bridge_loop marshal fetched None receives (replicate n Tick @ cs) =
          bridge_loop marshal fetched None receives cs"
    by (rule bridge_loop_idle [OF ticks])
  ultimately show ?thesis by (simp add: bridge_select_malformed)
qed

text \<open>
  Claim C6 as stated fails in its last part: the handler of the gRPC server starts from
  an empty, non-nil workflow, so a tick of its own ticker that comes before anything
  was received sends the projection of that empty workflow on the stream.
\<close>

theorem C6_counterexample:
  "WorkflowServer_WatchWorkflow (\<lambda>t. []) None [(StreamTick, None)] =
     ([apiWorkflow (\<lambda>t. []) zero_Workflow], Selecting)"
  by (simp add: WorkflowServer_WatchWorkflow_def)

text \<open>
  Claim C6 as amended. In the loop of the manager's bridge, as long as no object was
  received (only ticks, and events that carry no workflow), nothing is pushed and the
  loop goes on. The handler of the gRPC server does send before the first snapshot
  arrives: on each tick of its own, the projection of an empty workflow.
\<close>

theorem C6_no_push_before_first_object:
  "list_all (\<lambda>c. c = Tick \<or> c = Event None) cs \<Longrightarrow>
     bridge_loop marshal fetched None receives cs = ([], Streaming)
     \<and> WorkflowServer_WatchWorkflow fmt None (replicate n (StreamTick, None)) =
         (replicate n (apiWorkflow fmt zero_Workflow), Selecting)"
  using bridge_loop_idle [of cs marshal fetched receives "[]"]
  by (simp add: WorkflowServer_WatchWorkflow_def stream_loop_ticks)

theorem C6_no_push_before_first_object_witness:
  "list_all (\<lambda>c. c = Tick \<or> c = Event None) [Tick, Event None, Tick]
   \<and> bridge_loop (\<lambda>st. (st_Body st, None)) (Some example_snapshot) None 5 [Tick, Event None, Tick]
       = ([], Streaming)
   \<and> WorkflowServer_WatchWorkflow (\<lambda>t. []) None (replicate 2 (StreamTick, None)) =
         (replicate 2 (apiWorkflow (\<lambda>t. []) zero_Workflow), Selecting)"
  using C6_no_push_before_first_object [of "[Tick, Event None, Tick]"
      "\<lambda>st. (st_Body st, None)" "Some example_snapshot" 5 "\<lambda>t. []" 2]
  by simp

section \<open>The bridge and the handler together: the terminal snapshot\<close>

lemma watch_run_Nil: "watch_run marshal fetched fmt s [] = s"
  by (simp add: watch_run_def)

lemma watch_run_Cons:
  "watch_run marshal fetched fmt s (a # acts) =
     watch_run marshal fetched fmt (watch_step marshal fetched fmt s a) acts"
  by (simp add: watch_run_def)

lemma watch_run_append:
  "watch_run marshal fetched fmt s (acts @ more_acts) =
     watch_run marshal fetched fmt (watch_run marshal fetched fmt s acts) more_acts"
  by (simp add: watch_run_def)

text \<open>A turn of the bridge that comes to a snapshot puts the bridge in its send.\<close>

lemma bridge_offers:
  assumes "(case c of Event obj \<Rightarrow> obj | Tick \<Rightarrow> b_workflow s) = Some k"
    and "marshal (kw_Status k) = (status, None)"
    and "b_state s = Streaming"
  shows "watch_step marshal (Some f) fmt s (Bridge c) =
           s\<lparr>b_workflow := Some k, b_state := Sending (snapshot_of f k status)\<rparr>"
  using assms by (simp add: watch_step_def bridge_select_def)

text \<open>A turn of the bridge whose status does not serialise is skipped.\<close>

lemma bridge_skips:
  assumes "(case c of Event obj \<Rightarrow> obj | Tick \<Rightarrow> b_workflow s) = Some k"
    and "marshal (kw_Status k) = (status, Some e)"
    and "b_state s = Streaming"
  shows "watch_step marshal fetched fmt s (Bridge c) = s\<lparr>b_workflow := Some k\<rparr>"
  using assms by (simp add: watch_step_def bridge_select_def)

text \<open>The handler takes the snapshot offered, and the bridge goes on to line 126.\<close>

lemma handler_receives:
  assumes "b_state s = Sending v" and "h_state s = Selecting"
  shows "watch_step marshal fetched fmt s (Handler FromChannel send) =
           (case send of
              None \<Rightarrow> s\<lparr>b_state := (if finished (b_workflow s) then Closed else Streaming),
                        h_wf := Some v, h_state := Selecting,
                        h_sent := h_sent s @ [apiWorkflow fmt v]\<rparr>
            | Some e \<Rightarrow> s\<lparr>b_state := (if finished (b_workflow s) then Closed else Streaming),
                          h_wf := Some v, h_state := ReturnedErr (SendError e),
                          h_sent := h_sent s\<rparr>)"
  using assms by (simp add: watch_step_def handler_turn_def split: option.splits)

lemma handler_tick:
  assumes "h_state s = Selecting" and "h_wf s = Some w"
  shows "watch_step marshal fetched fmt s (Handler FromTicker None) =
           s\<lparr>h_wf := Some w, h_state := Selecting, h_sent := h_sent s @ [apiWorkflow fmt w]\<rparr>"
  using assms by (simp add: watch_step_def handler_turn_def)

lemma handler_sees_close:
  assumes "b_state s = Closed" and "h_state s = Selecting"
  shows "watch_step marshal fetched fmt s (Handler FromChannel send) =
           s\<lparr>h_wf := None, h_state := ReturnedNil, h_sent := h_sent s\<rparr>"
  using assms by (simp add: watch_step_def handler_turn_def)

text \<open>
  Once the handler has returned, a bridge that is not in its \<open>select\<close> stays where it
  is: no action changes anything. In particular a bridge in its send stays in its
  send, and the channel is never closed.
\<close>

lemma stuck_step:
  "b_state s \<noteq> Streaming \<Longrightarrow> h_state s \<noteq> Selecting \<Longrightarrow>
     watch_step marshal fetched fmt s a = s"
  by (cases a; cases "h_state s"; cases "b_state s") (simp_all add: watch_step_def)

lemma stuck_run:
  "b_state s \<noteq> Streaming \<Longrightarrow> h_state s \<noteq> Selecting \<Longrightarrow>
     watch_run marshal fetched fmt s acts = s"
  by (induction acts) (simp_all add: watch_run_Nil watch_run_Cons stuck_step)

text \<open>
  Once the channel is closed while the handler holds the snapshot \<open>w\<close>, the bridge
  pushes nothing more, and all the stream can still carry is \<open>w\<close> again.
\<close>

lemma closed_step:
  assumes "b_state s = Closed" and "h_state s \<noteq> Selecting \<or> h_wf s = Some w"
  shows "b_state (watch_step marshal fetched fmt s a) = Closed
       \<and> (h_state (watch_step marshal fetched fmt s a) \<noteq> Selecting
            \<or> h_wf (watch_step marshal fetched fmt s a) = Some w)
       \<and> (h_sent (watch_step marshal fetched fmt s a) = h_sent s
            \<or> h_sent (watch_step marshal fetched fmt s a) = h_sent s @ [apiWorkflow fmt w])"
proof (cases a)
  case (Bridge c)
  with assms show ?thesis by (simp add: watch_step_def)
next
  case (Handler br send)
  show ?thesis
  proof (cases "h_state s = Selecting")
    case False
    with assms Handler show ?thesis by (cases "h_state s") (simp_all add: watch_step_def)
  next
    case True
    with assms have w: "h_wf s = Some w" by simp
    show ?thesis using True w assms(1) Handler
      by (cases br; cases send) (simp_all add: watch_step_def handler_turn_def)
  qed
qed

lemma closed_run:
  assumes "b_state s = Closed" and "h_state s \<noteq> Selecting \<or> h_wf s = Some w"
  shows "b_state (watch_run marshal fetched fmt s acts) = Closed
       \<and> (\<exists>n. h_sent (watch_run marshal fetched fmt s acts) =
                 h_sent s @ replicate n (apiWorkflow fmt w))"
  using assms
proof (induction acts arbitrary: s)
  case Nil
  then show ?case by (simp add: watch_run_Nil)
next
  case (Cons a acts)
  let ?t = "watch_step marshal fetched fmt s a"
  from closed_step [OF Cons.prems, of marshal fetched fmt a]
  have c: "b_state ?t = Closed" and h: "h_state ?t \<noteq> Selecting \<or> h_wf ?t = Some w"
    and sent: "h_sent ?t = h_sent s \<or> h_sent ?t = h_sent s @ [apiWorkflow fmt w]"
    by simp_all
  from Cons.IH [OF c h] obtain n where
    closed: "b_state (watch_run marshal fetched fmt ?t acts) = Closed"
    and n: "h_sent (watch_run marshal fetched fmt ?t acts) = h_sent ?t @ replicate n (apiWorkflow fmt w)"
    by blast
  from sent show ?case
  proof
    assume "h_sent ?t = h_sent s"
    with closed n show ?thesis by (auto simp: watch_run_Cons)
  next
    assume "h_sent ?t = h_sent s @ [apiWorkflow fmt w]"
    with n have "h_sent (watch_run marshal fetched fmt ?t acts) =
                   h_sent s @ replicate (Suc n) (apiWorkflow fmt w)"
      by simp
    with closed show ?thesis unfolding watch_run_Cons by blast
  qed
qed

text \<open>
  Claim C3 as stated fails in two ways. The handler of the gRPC server keeps the last
  snapshot it received and sends it again on a tick of its own ticker: when that tick
  is taken after the terminal snapshot and before the receive from the closed channel,
  the stream carries the terminal snapshot twice. And in the bridge, a status that
  \<open>json.Marshal\<close> rejects is skipped: an object with a finishing time is then neither
  pushed nor does it end the loop.
\<close>

theorem C3_counterexample:
  "watch_run (\<lambda>st. (st_Body st, None)) (Some example_snapshot) (\<lambda>t. []) watch_initial
     [Bridge (Event (Some (example_instance (Some ''3'') 7))), Handler FromChannel None,
      Handler FromTicker None, Handler FromChannel None] =
     \<lparr>b_workflow = Some (example_instance (Some ''3'') 7), b_state = Closed,
      h_wf = None, h_state = ReturnedNil,
      h_sent = [apiWorkflow (\<lambda>t. []) example_snapshot, apiWorkflow (\<lambda>t. []) example_snapshot]\<rparr>
   \<and> watch_run (\<lambda>st. ([], Some (RawError ''json: unsupported value''))) (Some example_snapshot)
       (\<lambda>t. []) watch_initial
       [Bridge (Event (Some (example_instance (Some ''3'') 7))), Bridge Tick, Handler FromChannel None] =
     \<lparr>b_workflow = Some (example_instance (Some ''3'') 7), b_state = Streaming,
      h_wf = Some zero_Workflow, h_state = Selecting, h_sent = []\<rparr>"
  by (simp add: watch_run_def watch_step_def bridge_select_def handler_turn_def finished_def
      IsZero_def snapshot_of_def watch_initial_def example_instance_def example_snapshot_def)

text \<open>
  Claim C3 as amended. Let the object the bridge holds after a turn of its \<open>select\<close>
  have a finishing time, the bridge be in its \<open>select\<close> and the handler in its own.
  If the status serialises, the turn puts the bridge in the send of the terminal
  snapshot; when the handler takes it from the channel and its \<open>Send\<close> succeeds, the
  snapshot is on the stream, the bridge has left its loop and the channel is closed.
  From then on, whatever actions follow, the channel stays closed and the stream
  carries nothing but that snapshot again: once more on each tick of the handler's own
  ticker, until the handler receives from the closed channel and returns nil. If the
  \<open>Send\<close> of that turn fails, the handler returns the error and nothing reaches the
  stream. If the status does not serialise, the turn is skipped: nothing is pushed and
  the bridge stays in its loop. If the handler has returned before, the bridge stays in
  its send for ever and the channel is never closed.
\<close>

theorem C3_terminal_snapshot_closes:
  assumes sel: "(case c of Event obj \<Rightarrow> obj | Tick \<Rightarrow> b_workflow s) = Some k"
    and fin: "\<not> IsZero (st_FinishedAt (kw_Status k))"
    and bs: "b_state s = Streaming"
  shows
    "(marshal (kw_Status k) = (status, None) \<and> h_state s = Selecting \<longrightarrow>
        watch_step marshal (Some f) fmt s (Bridge c) =
          s\<lparr>b_workflow := Some k, b_state := Sending (snapshot_of f k status)\<rparr>
      \<and> watch_run marshal (Some f) fmt s [Bridge c, Handler FromChannel None] =
          s\<lparr>b_workflow := Some k, b_state := Closed, h_wf := Some (snapshot_of f k status),
            h_sent := h_sent s @ [apiWorkflow fmt (snapshot_of f k status)]\<rparr>
      \<and> b_state (watch_run marshal (Some f) fmt s (Bridge c # Handler FromChannel None # acts)) = Closed
      \<and> (\<exists>n. h_sent (watch_run marshal (Some f) fmt s (Bridge c # Handler FromChannel None # acts)) =
                h_sent s @ replicate (Suc n) (apiWorkflow fmt (snapshot_of f k status)))
      \<and> watch_run marshal (Some f) fmt s
            [Bridge c, Handler FromChannel None, Handler FromTicker None] =
          s\<lparr>b_workflow := Some k, b_state := Closed, h_wf := Some (snapshot_of f k status),
            h_sent := h_sent s @ [apiWorkflow fmt (snapshot_of f k status),
                                  apiWorkflow fmt (snapshot_of f k status)]\<rparr>
      \<and> watch_run marshal (Some f) fmt s
            [Bridge c, Handler FromChannel None, Handler FromChannel send] =
          s\<lparr>b_workflow := Some k, b_state := Closed, h_wf := None, h_state := ReturnedNil,
            h_sent := h_sent s @ [apiWorkflow fmt (snapshot_of f k status)]\<rparr>
      \<and> watch_run marshal (Some f) fmt s (Bridge c # Handler FromChannel (Some e) # acts) =
          s\<lparr>b_workflow := Some k, b_state := Closed, h_wf := Some (snapshot_of f k status),
            h_state := ReturnedErr (SendError e)\<rparr>)
     \<and> (marshal (kw_Status k) = (status, Some err) \<longrightarrow>
          watch_step marshal fetched fmt s (Bridge c) = s\<lparr>b_workflow := Some k\<rparr>)
     \<and> (marshal (kw_Status k) = (status, None) \<and> h_state s \<noteq> Selecting \<longrightarrow>
          watch_run marshal (Some f) fmt s (Bridge c # acts) =
            s\<lparr>b_workflow := Some k, b_state := Sending (snapshot_of f k status)\<rparr>)"
proof (intro conjI impI)
  assume ok: "marshal (kw_Status k) = (status, None) \<and> h_state s = Selecting"
  let ?v = "snapshot_of f k status"
  let ?s1 = "s\<lparr>b_workflow := Some k, b_state := Sending ?v\<rparr>"
  let ?s2 = "s\<lparr>b_workflow := Some k, b_state := Closed, h_wf := Some ?v,
               h_sent := h_sent s @ [apiWorkflow fmt ?v]\<rparr>"
  from ok have m: "marshal (kw_Status k) = (status, None)" and hs: "h_state s = Selecting"
    by simp_all
  show s1: "watch_step marshal (Some f) fmt s (Bridge c) = ?s1"
    using sel m bs by (rule bridge_offers)
  have fk: "finished (b_workflow ?s1)" using fin by (simp add: finished_def)
  have s2: "watch_step marshal (Some f) fmt ?s1 (Handler FromChannel None) = ?s2"
    using hs fk by (simp add: handler_receives [where v = ?v])
  show r2: "watch_run marshal (Some f) fmt s [Bridge c, Handler FromChannel None] = ?s2"
    by (simp add: watch_run_Cons watch_run_Nil s1 s2)
  have after: "watch_run marshal (Some f) fmt s (Bridge c # Handler FromChannel None # acts) =
                 watch_run marshal (Some f) fmt ?s2 acts"
    by (simp add: watch_run_Cons s1 s2)
  have c2: "b_state ?s2 = Closed" and h2: "h_state ?s2 \<noteq> Selecting \<or> h_wf ?s2 = Some ?v"
    by simp_all
  from closed_run [OF c2 h2, of marshal "Some f" fmt acts] obtain n where
    closed: "b_state (watch_run marshal (Some f) fmt ?s2 acts) = Closed"
    and n: "h_sent (watch_run marshal (Some f) fmt ?s2 acts) =
              h_sent ?s2 @ replicate n (apiWorkflow fmt ?v)"
    by blast
  show "b_state (watch_run marshal (Some f) fmt s (Bridge c # Handler FromChannel None # acts)) = Closed"
    using closed by (simp add: after)
  have "h_sent (watch_run marshal (Some f) fmt s (Bridge c # Handler FromChannel None # acts)) =
          h_sent s @ replicate (Suc n) (apiWorkflow fmt ?v)"
    using n by (simp add: after)
  then show "\<exists>n. h_sent (watch_run marshal (Some f) fmt s (Bridge c # Handler FromChannel None # acts)) =
                h_sent s @ replicate (Suc n) (apiWorkflow fmt ?v)"
    by (rule exI)
  show "watch_run marshal (Some f) fmt s
            [Bridge c, Handler FromChannel None, Handler FromTicker None] =
          s\<lparr>b_workflow := Some k, b_state := Closed, h_wf := Some ?v,
            h_sent := h_sent s @ [apiWorkflow fmt ?v, apiWorkflow fmt ?v]\<rparr>"
    using hs by (simp add: watch_run_Cons watch_run_Nil s1 s2 handler_tick [where w = ?v])
  show "watch_run marshal (Some f) fmt s
            [Bridge c, Handler FromChannel None, Handler FromChannel send] =
          s\<lparr>b_workflow := Some k, b_state := Closed, h_wf := None, h_state := ReturnedNil,
            h_sent := h_sent s @ [apiWorkflow fmt ?v]\<rparr>"
    using hs by (simp add: watch_run_Cons watch_run_Nil s1 s2 handler_sees_close)
  let ?s3 = "s\<lparr>b_workflow := Some k, b_state := Closed, h_wf := Some ?v,
               h_state := ReturnedErr (SendError e)\<rparr>"
  have s3: "watch_step marshal (Some f) fmt ?s1 (Handler FromChannel (Some e)) = ?s3"
    using hs fk by (simp add: handler_receives [where v = ?v])
  have "watch_run marshal (Some f) fmt ?s3 acts = ?s3"
    by (rule stuck_run) simp_all
  then show "watch_run marshal (Some f) fmt s (Bridge c # Handler FromChannel (Some e) # acts) = ?s3"
    by (simp add: watch_run_Cons s1 s3)
next
  assume m: "marshal (kw_Status k) = (status, Some err)"
  show "watch_step marshal fetched fmt s (Bridge c) = s\<lparr>b_workflow := Some k\<rparr>"
    using sel m bs by (rule bridge_skips)
next
  assume gone: "marshal (kw_Status k) = (status, None) \<and> h_state s \<noteq> Selecting"
  let ?s1 = "s\<lparr>b_workflow := Some k, b_state := Sending (snapshot_of f k status)\<rparr>"
  from gone have m: "marshal (kw_Status k) = (status, None)" by simp
  have s1: "watch_step marshal (Some f) fmt s (Bridge c) = ?s1"
    using sel m bs by (rule bridge_offers)
  have "watch_run marshal (Some f) fmt ?s1 acts = ?s1"
    using gone by (intro stuck_run) simp_all
  then show "watch_run marshal (Some f) fmt s (Bridge c # acts) = ?s1"
    by (simp add: watch_run_Cons s1)
qed

theorem C3_terminal_snapshot_closes_witness:
  "watch_run (\<lambda>st. (st_Body st, None)) (Some example_snapshot) (\<lambda>t. []) watch_initial
     [Bridge (Event (Some (example_instance (Some ''3'') 7))), Handler FromChannel None] =
     watch_initial\<lparr>b_workflow := Some (example_instance (Some ''3'') 7), b_state := Closed,
                   h_wf := Some example_snapshot,
                   h_sent := [apiWorkflow (\<lambda>t. []) example_snapshot]\<rparr>
   \<and> watch_run (\<lambda>st. (st_Body st, None)) (Some example_snapshot) (\<lambda>t. []) watch_initial
     [Bridge (Event (Some (example_instance (Some ''3'') 7))), Handler FromChannel None,
      Handler FromChannel None] =
     watch_initial\<lparr>b_workflow := Some (example_instance (Some ''3'') 7), b_state := Closed,
                   h_wf := None, h_state := ReturnedNil,
                   h_sent := [apiWorkflow (\<lambda>t. []) example_snapshot]\<rparr>
   \<and> watch_step (\<lambda>st. ([], Some (RawError ''json: unsupported value''))) (Some example_snapshot)
       (\<lambda>t. []) watch_initial (Bridge (Event (Some (example_instance (Some ''3'') 7)))) =
     watch_initial\<lparr>b_workflow := Some (example_instance (Some ''3'') 7)\<rparr>
   \<and> watch_run (\<lambda>st. (st_Body st, None)) (Some example_snapshot) (\<lambda>t. [])
       (watch_initial\<lparr>h_state := ReturnedErr (SendError ''client gone'')\<rparr>)
       [Bridge (Event (Some (example_instance (Some ''3'') 7))), Handler FromChannel None,
        Bridge Tick] =
     watch_initial\<lparr>h_state := ReturnedErr (SendError ''client gone''),
                   b_workflow := Some (example_instance (Some ''3'') 7),
                   b_state := Sending example_snapshot\<rparr>"
proof -
  let ?k = "example_instance (Some ''3'') 7"
  let ?ok = "\<lambda>st. (st_Body st, None :: error option)"
  let ?bad = "\<lambda>st::kube_Status. ([] :: string, Some (RawError ''json: unsupported value''))"
  let ?gone = "watch_initial\<lparr>h_state := ReturnedErr (SendError ''client gone'')\<rparr>"
  have sel: "(case Event (Some ?k) of Event obj \<Rightarrow> obj | Tick \<Rightarrow> b_workflow watch_initial) = Some ?k"
    by simp
  have sel': "(case Event (Some ?k) of Event obj \<Rightarrow> obj | Tick \<Rightarrow> b_workflow ?gone) = Some ?k"
    by simp
  have fin: "\<not> IsZero (st_FinishedAt (kw_Status ?k))"
    by (simp add: example_instance_def IsZero_def)
  have bs: "b_state watch_initial = Streaming" and bs': "b_state ?gone = Streaming"
    by (simp_all add: watch_initial_def)
  have snap: "snapshot_of example_snapshot ?k ''phase'' = example_snapshot"
    by (simp add: snapshot_of_def example_snapshot_def example_instance_def)
  note ok = C3_terminal_snapshot_closes [OF sel fin bs, where marshal = ?ok and status = "''phase''"
      and f = example_snapshot and fmt = "\<lambda>t. []" and send = None]
  note bad = C3_terminal_snapshot_closes [OF sel fin bs, where marshal = ?bad and status = "[]"
      and err = "RawError ''json: unsupported value''" and fetched = "Some example_snapshot"
      and fmt = "\<lambda>t. []"]
  note gone = C3_terminal_snapshot_closes [OF sel' fin bs', where marshal = ?ok and status = "''phase''"
      and f = example_snapshot and fmt = "\<lambda>t. []" and acts = "[Handler FromChannel None, Bridge Tick]"]
  have m: "?ok (kw_Status ?k) = (''phase'', None)" by (simp add: example_instance_def)
  have hs: "h_state watch_initial = Selecting" and hs': "h_state ?gone \<noteq> Selecting"
    by (simp_all add: watch_initial_def)
  from ok m hs have 1: "watch_run ?ok (Some example_snapshot) (\<lambda>t. []) watch_initial
       [Bridge (Event (Some ?k)), Handler FromChannel None] =
     watch_initial\<lparr>b_workflow := Some ?k, b_state := Closed, h_wf := Some example_snapshot,
                   h_sent := h_sent watch_initial @ [apiWorkflow (\<lambda>t. []) example_snapshot]\<rparr>"
    unfolding snap by blast
  from ok m hs have 2: "watch_run ?ok (Some example_snapshot) (\<lambda>t. []) watch_initial
       [Bridge (Event (Some ?k)), Handler FromChannel None, Handler FromChannel None] =
     watch_initial\<lparr>b_workflow := Some ?k, b_state := Closed, h_wf := None, h_state := ReturnedNil,
                   h_sent := h_sent watch_initial @ [apiWorkflow (\<lambda>t. []) example_snapshot]\<rparr>"
    unfolding snap by blast
  from bad have 3: "watch_step ?bad (Some example_snapshot) (\<lambda>t. []) watch_initial
       (Bridge (Event (Some ?k))) = watch_initial\<lparr>b_workflow := Some ?k\<rparr>"
    by simp
  from gone m hs' have 4: "watch_run ?ok (Some example_snapshot) (\<lambda>t. []) ?gone
       [Bridge (Event (Some ?k)), Handler FromChannel None, Bridge Tick] =
     ?gone\<lparr>b_workflow := Some ?k, b_state := Sending example_snapshot\<rparr>"
    unfolding snap by blast
  have e: "h_sent watch_initial = []" by (simp add: watch_initial_def)
  from 1 2 3 4 show ?thesis by (simp add: e)
qed

end
